theory Spec2Isabelle
  imports Complex_Main
begin

section \<open>Data model of app3.py\<close>

text \<open>
  The controller keeps two module-level dictionaries: \<open>traffic_data\<close>, with the four fixed
  keys \<open>lane1\<close> .. \<open>lane4\<close> (never inserted or deleted, so iteration order is always
  lane1, lane2, lane3, lane4), and \<open>system_settings\<close>. A lane dictionary is a record; the
  light strings "red", "yellow", "green" are a datatype; \<open>next_state\<close> is \<open>None\<close> or a light.
  Timers and durations are Python integers, weights are Python numbers compared with \<open>>\<close>.
\<close>

datatype light = Red | Yellow | Green

datatype lane_id = Lane1 | Lane2 | Lane3 | Lane4

record lane =
  emergency :: bool
  remaining_time :: int
  light :: light
  vehicle_count :: nat
  weight :: real
  next_state :: "light option"

record settings =
  mode :: string
  cycle_duration :: int
  yellow_duration :: int
  weight_threshold :: real

record state =
  lane1 :: lane
  lane2 :: lane
  lane3 :: lane
  lane4 :: lane
  system_settings :: settings

text \<open>\<open>traffic_data[k]\<close> and the in-place update of the dictionary stored under key \<open>k\<close>.\<close>

fun lane_of :: "state \<Rightarrow> lane_id \<Rightarrow> lane" where
  "lane_of s Lane1 = lane1 s"
| "lane_of s Lane2 = lane2 s"
| "lane_of s Lane3 = lane3 s"
| "lane_of s Lane4 = lane4 s"

fun set_lane :: "lane_id \<Rightarrow> lane \<Rightarrow> state \<Rightarrow> state" where
  "set_lane Lane1 l s = s\<lparr>lane1 := l\<rparr>"
| "set_lane Lane2 l s = s\<lparr>lane2 := l\<rparr>"
| "set_lane Lane3 l s = s\<lparr>lane3 := l\<rparr>"
| "set_lane Lane4 l s = s\<lparr>lane4 := l\<rparr>"

text \<open>\<open>lanes_order\<close>, which is also the order of \<open>traffic_data.items()\<close>, and \<open>lanes_order.index\<close>.\<close>

definition lanes_order :: "lane_id list" where
  "lanes_order = [Lane1, Lane2, Lane3, Lane4]"

fun index_of :: "lane_id \<Rightarrow> int" where
  "index_of Lane1 = 0"
| "index_of Lane2 = 1"
| "index_of Lane3 = 2"
| "index_of Lane4 = 3"

text \<open>The values the module starts with (lines 39-52).\<close>

definition initial_state :: state where
  "initial_state =
     \<lparr>lane1 = \<lparr>emergency = False, remaining_time = 45, light = Red, vehicle_count = 0,
                weight = 0, next_state = None\<rparr>,
      lane2 = \<lparr>emergency = False, remaining_time = 30, light = Red, vehicle_count = 0,
                weight = 0, next_state = None\<rparr>,
      lane3 = \<lparr>emergency = False, remaining_time = 15, light = Red, vehicle_count = 0,
                weight = 0, next_state = None\<rparr>,
      lane4 = \<lparr>emergency = False, remaining_time = 0, light = Green, vehicle_count = 0,
                weight = 0, next_state = None\<rparr>,
      system_settings = \<lparr>mode = ''auto'', cycle_duration = 15, yellow_duration = 3,
                          weight_threshold = 6\<rparr>\<rparr>"

section \<open>calculate_red_time (lines 173-202)\<close>

text \<open>
  \<open>green_lane\<close> is the first value of \<open>traffic_data\<close> whose light is green; its key is then
  searched again by comparing whole lane dictionaries (\<open>v == green_lane\<close>). That second
  \<open>next\<close> has no default; lemma \<open>green_lane_id_found\<close> below shows that it always finds a key.
\<close>

definition green_lane :: "state \<Rightarrow> lane option" where
  "green_lane s = find (\<lambda>l. light l = Green) (map (lane_of s) lanes_order)"

definition green_lane_id :: "state \<Rightarrow> lane \<Rightarrow> lane_id" where
  "green_lane_id s g = the (find (\<lambda>k. lane_of s k = g) lanes_order)"

definition calculate_red_time :: "state \<Rightarrow> lane_id \<Rightarrow> int" where
  "calculate_red_time s lane_id =
     (case green_lane s of
        None \<Rightarrow> 0
      | Some g \<Rightarrow>
          (let green_idx = index_of (green_lane_id s g);
               current_idx = index_of lane_id;
               position = (current_idx - green_idx) mod 4
           in if position = 0 then 0
              else if position = 1 then
                remaining_time g + yellow_duration (system_settings s)
              else if position = 2 then
                remaining_time g + yellow_duration (system_settings s)
                  + cycle_duration (system_settings s)
              else \<comment> \<open>\<open>position == 3\<close>, the only value of \<open>% 4\<close> left\<close>
                remaining_time g + yellow_duration (system_settings s)
                  + cycle_duration (system_settings s) * 2))"

section \<open>update_traffic_lights (lines 204-325)\<close>

text \<open>
  \<open>send_to_arduino\<close> writes to the serial port and changes neither dictionary; it is left
  out of the state. Each loop over \<open>traffic_data.items()\<close> is a fold over \<open>lanes_order\<close>
  that threads the state, since \<open>calculate_red_time\<close> reads lanes that the same loop has
  already changed.
\<close>

definition decrement_lane :: "lane_id \<Rightarrow> state \<Rightarrow> state" where
  "decrement_lane k s =
     (let l = lane_of s k in
      if remaining_time l > 0 then set_lane k (l\<lparr>remaining_time := remaining_time l - 1\<rparr>) s
      else if light l = Red then set_lane k (l\<lparr>remaining_time := calculate_red_time s k\<rparr>) s
      else s)"

definition decrement_timers :: "state \<Rightarrow> state" where
  "decrement_timers s = fold decrement_lane lanes_order s"

definition transition_lane :: "lane_id \<Rightarrow> state \<Rightarrow> state" where
  "transition_lane k s =
     (let l = lane_of s k in
      if remaining_time l \<le> 0 then
        (case next_state l of
           None \<Rightarrow> s
         | Some n \<Rightarrow>
             (let s1 = set_lane k (l\<lparr>light := n, next_state := None\<rparr>) s;
                  l1 = lane_of s1 k
              in if n = Green then
                   set_lane k (l1\<lparr>remaining_time := cycle_duration (system_settings s1)\<rparr>) s1
                 else if n = Yellow then
                   set_lane k (l1\<lparr>remaining_time := yellow_duration (system_settings s1)\<rparr>) s1
                 else
                   set_lane k (l1\<lparr>remaining_time := calculate_red_time s1 k\<rparr>) s1))
      else s)"

definition handle_transitions :: "state \<Rightarrow> state" where
  "handle_transitions s = fold transition_lane lanes_order s"

text \<open>The lane the emergency loop breaks at (lines 232-236).\<close>

definition emergency_lane :: "state \<Rightarrow> lane_id option" where
  "emergency_lane s = find (\<lambda>k. emergency (lane_of s k)) lanes_order"

text \<open>
  The body of the forcing loop. The source has the same text twice, at lines 240-257 for the
  emergency lane and at lines 268-285 for \<open>max_lane\<close>; the model shares it.
\<close>

definition give_priority_lane :: "lane_id \<Rightarrow> lane_id \<Rightarrow> state \<Rightarrow> state" where
  "give_priority_lane target k s =
     (let l = lane_of s k in
      if k = target then
        (if light l \<noteq> Green then
           (if light l = Red then
              set_lane k (l\<lparr>light := Yellow, next_state := Some Green,
                            remaining_time := yellow_duration (system_settings s)\<rparr>) s
            else if light l = Yellow then
              set_lane k (l\<lparr>next_state := Some Green\<rparr>) s
            else s)
         else s)
      else
        (if light l = Green then
           set_lane k (l\<lparr>light := Yellow, next_state := Some Red,
                         remaining_time := yellow_duration (system_settings s)\<rparr>) s
         else if light l = Yellow \<and> next_state l \<noteq> Some Red then
           set_lane k (l\<lparr>next_state := Some Red\<rparr>) s
         else s))"

definition give_priority :: "lane_id \<Rightarrow> state \<Rightarrow> state" where
  "give_priority target s = fold (give_priority_lane target) lanes_order s"

text \<open>
  \<open>high_weight_lanes\<close> keeps the dictionary order; Python's \<open>max\<close> keeps the first item
  among equals, replacing its candidate only by a strictly greater key.
\<close>

definition high_weight_lanes :: "state \<Rightarrow> lane_id list" where
  "high_weight_lanes s =
     filter (\<lambda>k. weight (lane_of s k) > weight_threshold (system_settings s)) lanes_order"

fun py_max :: "('a \<Rightarrow> real) \<Rightarrow> 'a \<Rightarrow> 'a list \<Rightarrow> 'a" where
  "py_max key best [] = best"
| "py_max key best (x # xs) = py_max key (if key x > key best then x else best) xs"

definition max_lane :: "state \<Rightarrow> lane_id option" where
  "max_lane s =
     (case high_weight_lanes s of
        [] \<Rightarrow> None
      | k # ks \<Rightarrow> Some (py_max (\<lambda>j. weight (lane_of s j)) k ks))"

definition current_green :: "state \<Rightarrow> lane_id option" where
  "current_green s = find (\<lambda>k. light (lane_of s k) = Green) lanes_order"

definition update_lane :: "lane_id \<Rightarrow> light \<Rightarrow> light option \<Rightarrow> int \<Rightarrow> state \<Rightarrow> state" where
  "update_lane k li ns t s =
     set_lane k ((lane_of s k)\<lparr>light := li, next_state := ns, remaining_time := t\<rparr>) s"

definition normal_operation :: "state \<Rightarrow> state" where
  "normal_operation s =
     (if list_ex (\<lambda>k. light (lane_of s k) = Yellow) lanes_order then s
      else
        (case current_green s of
           Some g \<Rightarrow>
             if remaining_time (lane_of s g) > 0 then s
             else
               (let s1 = update_lane g Yellow (Some Red) (yellow_duration (system_settings s)) s;
                    current_index = index_of g;
                    next_index = (current_index + 1) mod int (length lanes_order);
                    next_green = lanes_order ! nat next_index
                in update_lane next_green Yellow (Some Green)
                     (yellow_duration (system_settings s1)) s1)
         | None \<Rightarrow>
             update_lane Lane4 Yellow (Some Green) (yellow_duration (system_settings s)) s))"

definition update_traffic_lights :: "state \<Rightarrow> state" where
  "update_traffic_lights s =
     (let s2 = handle_transitions (decrement_timers s) in
      case emergency_lane s2 of
        Some e \<Rightarrow> give_priority e s2
      | None \<Rightarrow>
          (case max_lane s2 of
             Some m \<Rightarrow> give_priority m s2
           | None \<Rightarrow> normal_operation s2))"

section \<open>update_settings (lines 142-171)\<close>

text \<open>
  The request body is a JSON object with optional keys \<open>mode\<close>, \<open>duration\<close> and
  \<open>yellow_duration\<close>. \<open>int\<close> is a Python builtin: a value it converts is \<open>Numeric n\<close>, a
  value it raises on is \<open>NonNumeric msg\<close>, with the exception's message. \<open>Inl msg\<close> as body is
  a request on which \<open>get_json\<close> or \<open>data.get\<close> raises. Every exception is caught at line 170
  and answered with \<open>success = False\<close> and the message; assignments made before it stay.
\<close>

datatype jvalue = Numeric int | NonNumeric string

record request =
  req_mode :: "string option"
  req_duration :: "jvalue option"
  req_yellow_duration :: "jvalue option"

datatype response = Success | Failure string

fun py_int :: "jvalue \<Rightarrow> string + int" where
  "py_int (Numeric n) = Inr n"
| "py_int (NonNumeric msg) = Inl msg"

definition get_or :: "'a option \<Rightarrow> 'a \<Rightarrow> 'a" where
  "get_or v d = (case v of Some x \<Rightarrow> x | None \<Rightarrow> d)"

definition reset_lane :: "int \<Rightarrow> lane_id \<Rightarrow> state \<Rightarrow> state" where
  "reset_lane current_idx lane_id s =
     (let position = (index_of lane_id - current_idx) mod 4 in
      if position = 0 then
        update_lane lane_id Green None (cycle_duration (system_settings s)) s
      else
        update_lane lane_id Red None (position * cycle_duration (system_settings s)) s)"

definition reset_timers :: "state \<Rightarrow> state" where
  "reset_timers s =
     (let cg = get_or (current_green s) Lane4;
          current_idx = index_of cg
      in fold (reset_lane current_idx) lanes_order s)"

definition update_settings :: "string + request \<Rightarrow> state \<Rightarrow> response \<times> state" where
  "update_settings body s =
     (case body of
        Inl msg \<Rightarrow> (Failure msg, s)
      | Inr data \<Rightarrow>
          (let s1 = s\<lparr>system_settings :=
                       (system_settings s)\<lparr>mode := get_or (req_mode data) (mode (system_settings s))\<rparr>\<rparr>
           in case py_int (get_or (req_duration data)
                             (Numeric (cycle_duration (system_settings s1)))) of
                Inl msg \<Rightarrow> (Failure msg, s1)
              | Inr c \<Rightarrow>
                  (let s2 = s1\<lparr>system_settings := (system_settings s1)\<lparr>cycle_duration := c\<rparr>\<rparr>
                   in case py_int (get_or (req_yellow_duration data)
                                     (Numeric (yellow_duration (system_settings s2)))) of
                        Inl msg \<Rightarrow> (Failure msg, s2)
                      | Inr y \<Rightarrow>
                          (let s3 = s2\<lparr>system_settings :=
                                        (system_settings s2)\<lparr>yellow_duration := y\<rparr>\<rparr>
                           in (Success, reset_timers s3)))))"

section \<open>Observations written by detect_objects (lines 92-113)\<close>

text \<open>
  A frame is the list of the COCO class ids of its boxes. Only ids 2 (car), 5 (bus),
  7 (truck) and 11 (stop sign) name a key of \<open>vehicle_weights\<close>; a stop sign raises the
  emergency flag. The keys van and bike are never counted, their counts stay 0.
\<close>

definition frame_weight :: "nat list \<Rightarrow> real" where
  "frame_weight boxes =
     1 * real (count_list boxes 2) + 3 * real (count_list boxes 7) + 2 * 0 + 0.5 * 0
       + 2 * real (count_list boxes 11) + 3 * real (count_list boxes 5)"

definition frame_count :: "nat list \<Rightarrow> nat" where
  "frame_count boxes =
     count_list boxes 2 + count_list boxes 7 + count_list boxes 11 + count_list boxes 5"

definition detect_objects :: "lane_id \<Rightarrow> nat list \<Rightarrow> state \<Rightarrow> state" where
  "detect_objects k boxes s =
     set_lane k ((lane_of s k)\<lparr>emergency := (11 \<in> set boxes),
                               vehicle_count := frame_count boxes,
                               weight := frame_weight boxes\<rparr>) s"

text \<open>
  The states the program can be in: the start values, and whatever a tick, a settings
  request or a processed frame makes of a state it can be in.
\<close>

inductive reachable :: "state \<Rightarrow> bool" where
  reach_init: "reachable initial_state"
| reach_tick: "reachable s \<Longrightarrow> reachable (update_traffic_lights s)"
| reach_settings: "reachable s \<Longrightarrow> reachable (snd (update_settings body s))"
| reach_detect: "reachable s \<Longrightarrow> reachable (detect_objects k boxes s)"

section \<open>Auxiliary definitions for the properties\<close>

subsection \<open>Closed forms\<close>

text \<open>The wait of lane \<open>k\<close> counted from the Green lane \<open>g\<close>, as a closed formula.\<close>

definition red_time_at :: "state \<Rightarrow> lane_id \<Rightarrow> lane_id \<Rightarrow> int" where
  "red_time_at s g k =
     (let p = (index_of k - index_of g) mod 4 in
      if p = 0 then 0
      else remaining_time (lane_of s g) + yellow_duration (system_settings s)
             + (p - 1) * cycle_duration (system_settings s))"

text \<open>The lane that follows \<open>g\<close> in \<open>lanes_order\<close>, wrapping around.\<close>

fun next_lane :: "lane_id \<Rightarrow> lane_id" where
  "next_lane Lane1 = Lane2"
| "next_lane Lane2 = Lane3"
| "next_lane Lane3 = Lane4"
| "next_lane Lane4 = Lane1"

text \<open>What one pass of the forcing loop makes of a lane, target or not.\<close>

definition forced :: "bool \<Rightarrow> int \<Rightarrow> lane \<Rightarrow> lane" where
  "forced is_target Y l =
     (if is_target then
        (if light l = Red then l\<lparr>light := Yellow, next_state := Some Green, remaining_time := Y\<rparr>
         else if light l = Yellow then l\<lparr>next_state := Some Green\<rparr>
         else l)
      else
        (if light l = Green then l\<lparr>light := Yellow, next_state := Some Red, remaining_time := Y\<rparr>
         else if light l = Yellow \<and> next_state l \<noteq> Some Red then l\<lparr>next_state := Some Red\<rparr>
         else l))"


subsection \<open>Invariants\<close>

text \<open>
  The lights and pending states fit together: at most one lane is Green, at most one lane is
  about to turn Green, none is about to turn Green while another is Green, and only a Yellow
  lane has a pending state.
\<close>

definition lights_ok :: "state \<Rightarrow> bool" where
  "lights_ok s \<longleftrightarrow>
     (\<forall>i j. light (lane_of s i) = Green \<and> light (lane_of s j) = Green \<longrightarrow> i = j)
   \<and> (\<forall>i j. next_state (lane_of s i) = Some Green \<and> next_state (lane_of s j) = Some Green
          \<longrightarrow> i = j)
   \<and> (\<forall>i j. next_state (lane_of s i) = Some Green \<longrightarrow> light (lane_of s j) \<noteq> Green)
   \<and> (\<forall>i. next_state (lane_of s i) \<noteq> None \<longrightarrow> light (lane_of s i) = Yellow)"

text \<open>No timer and no configured duration is negative.\<close>

definition timers_ok :: "state \<Rightarrow> bool" where
  "timers_ok s \<longleftrightarrow>
     (\<forall>k. 0 \<le> remaining_time (lane_of s k))
     \<and> 0 \<le> cycle_duration (system_settings s) \<and> 0 \<le> yellow_duration (system_settings s)"

subsection \<open>Phases of the rotation and of a preemption\<close>

text \<open>No emergency flag is set and no weight is above the threshold.\<close>

definition quiet :: "state \<Rightarrow> bool" where
  "quiet s \<longleftrightarrow>
     (\<forall>k. \<not> emergency (lane_of s k))
     \<and> (\<forall>k. weight (lane_of s k) \<le> weight_threshold (system_settings s))"

text \<open>
  Lane \<open>k\<close> is Green with \<open>r\<close> seconds left and every other lane waits at Red; then the
  hand-off from \<open>k\<close> to the next lane, both Yellow with \<open>r\<close> seconds left.
\<close>

definition green_phase :: "lane_id \<Rightarrow> int \<Rightarrow> state \<Rightarrow> bool" where
  "green_phase k r s \<longleftrightarrow>
     light (lane_of s k) = Green \<and> next_state (lane_of s k) = None
     \<and> remaining_time (lane_of s k) = r
     \<and> (\<forall>j. j \<noteq> k \<longrightarrow> light (lane_of s j) = Red \<and> next_state (lane_of s j) = None)"

definition handoff_phase :: "lane_id \<Rightarrow> int \<Rightarrow> state \<Rightarrow> bool" where
  "handoff_phase k r s \<longleftrightarrow>
     light (lane_of s k) = Yellow \<and> next_state (lane_of s k) = Some Red
     \<and> remaining_time (lane_of s k) = r
     \<and> light (lane_of s (next_lane k)) = Yellow
     \<and> next_state (lane_of s (next_lane k)) = Some Green
     \<and> remaining_time (lane_of s (next_lane k)) = r
     \<and> (\<forall>j. j \<noteq> k \<and> j \<noteq> next_lane k \<longrightarrow>
           light (lane_of s j) = Red \<and> next_state (lane_of s j) = None)"

text \<open>
  Lane \<open>m\<close> alone has its emergency flag set. A lane yields when it is Red with nothing
  pending or Yellow on its way to Red. While lane \<open>m\<close> is being given priority it is Yellow
  on its way to Green with \<open>r\<close> seconds left and every other lane yields; afterwards it is
  Green with a full cycle ahead.
\<close>

definition only_emergency :: "lane_id \<Rightarrow> state \<Rightarrow> bool" where
  "only_emergency m s \<longleftrightarrow>
     emergency (lane_of s m) \<and> (\<forall>j. j \<noteq> m \<longrightarrow> \<not> emergency (lane_of s j))"

definition yielding :: "lane \<Rightarrow> bool" where
  "yielding l \<longleftrightarrow>
     (light l = Red \<and> next_state l = None) \<or> (light l = Yellow \<and> next_state l = Some Red)"

definition preempting :: "lane_id \<Rightarrow> int \<Rightarrow> state \<Rightarrow> bool" where
  "preempting m r s \<longleftrightarrow>
     light (lane_of s m) = Yellow \<and> next_state (lane_of s m) = Some Green
     \<and> remaining_time (lane_of s m) = r
     \<and> (\<forall>j. j \<noteq> m \<longrightarrow> yielding (lane_of s j))"

definition preempted :: "lane_id \<Rightarrow> state \<Rightarrow> bool" where
  "preempted m s \<longleftrightarrow>
     light (lane_of s m) = Green \<and> next_state (lane_of s m) = None
     \<and> remaining_time (lane_of s m) = cycle_duration (system_settings s)
     \<and> (\<forall>j. j \<noteq> m \<longrightarrow> yielding (lane_of s j))"

subsection \<open>Example states and requests\<close>

text \<open>Lane1 Green with 10 seconds left, the other lanes Red, default settings.\<close>

definition timing_example :: state where
  "timing_example =
     initial_state\<lparr>lane1 := (lane1 initial_state)\<lparr>light := Green, remaining_time := 10\<rparr>,
                    lane4 := (lane4 initial_state)\<lparr>light := Red, remaining_time := 43\<rparr>\<rparr>"

text \<open>
  States the program reaches from its start values by ticks alone: after 1 tick (lane4 and
  lane1 both Yellow, no lane Green), after 15 ticks (lane3 Red with its timer at 0, lane1
  Green) and after 22 ticks (lane2 freshly Green).
\<close>

definition handoff_state :: state where
  "handoff_state = update_traffic_lights initial_state"

definition red_zero_example :: state where
  "red_zero_example = (update_traffic_lights ^^ 15) initial_state"

definition lane2_green_state :: state where
  "lane2_green_state = (update_traffic_lights ^^ 22) initial_state"

text \<open>A frame with one stop sign, seen at start by camera 1 and by camera 4.\<close>

definition emergency_example :: state where
  "emergency_example = detect_objects Lane1 [11] initial_state"

definition held_green_example :: state where
  "held_green_example = detect_objects Lane4 [11] initial_state"

text \<open>The start values with lane2 at weight \<open>w\<close>.\<close>

definition weight_example :: "real \<Rightarrow> state" where
  "weight_example w = initial_state\<lparr>lane2 := (lane2 initial_state)\<lparr>weight := w\<rparr>\<rparr>"

text \<open>
  Settings requests: a new cycle duration of 20; mode and a duration that \<open>int\<close> rejects; a
  negative cycle duration; cycle duration 1 with yellow duration 0. The last two are applied
  to the start values.
\<close>

definition duration_request :: "string + request" where
  "duration_request =
     Inr \<lparr>req_mode = None, req_duration = Some (Numeric 20), req_yellow_duration = None\<rparr>"

definition bad_duration_request :: "string + request" where
  "bad_duration_request =
     Inr \<lparr>req_mode = Some ''manual'',
          req_duration = Some (NonNumeric ''invalid literal for int() with base 10: 'abc' ''),
          req_yellow_duration = None\<rparr>"

definition negative_duration_request :: "string + request" where
  "negative_duration_request =
     Inr \<lparr>req_mode = None, req_duration = Some (Numeric (- 5)), req_yellow_duration = None\<rparr>"

definition zero_yellow_request :: "string + request" where
  "zero_yellow_request =
     Inr \<lparr>req_mode = None, req_duration = Some (Numeric 1),
          req_yellow_duration = Some (Numeric 0)\<rparr>"

definition negative_example :: state where
  "negative_example = snd (update_settings negative_duration_request initial_state)"

definition zero_yellow_example :: state where
  "zero_yellow_example = snd (update_settings zero_yellow_request initial_state)"

section \<open>Basic facts\<close>

lemma lane_of_set_lane [simp]: "lane_of (set_lane k l s) j = (if j = k then l else lane_of s j)"
  by (cases k; cases j) simp_all

lemma system_settings_set_lane [simp]: "system_settings (set_lane k l s) = system_settings s"
  by (cases k) simp_all

lemma lane_id_all: "(\<forall>k. P k) \<longleftrightarrow> P Lane1 \<and> P Lane2 \<and> P Lane3 \<and> P Lane4"
  by (metis lane_id.exhaust)

lemma lane_id_ex: "(\<exists>k. P k) \<longleftrightarrow> P Lane1 \<or> P Lane2 \<or> P Lane3 \<or> P Lane4"
  by (metis lane_id.exhaust)

lemma green_lane_current: "green_lane s = map_option (lane_of s) (current_green s)"
  by (simp add: green_lane_def current_green_def lanes_order_def)

lemma green_lane_id_found:
  assumes "green_lane s = Some g"
  shows "find (\<lambda>k. lane_of s k = g) lanes_order = current_green s"
  using assms
  by (auto simp add: green_lane_def current_green_def lanes_order_def split: if_splits)

lemma green_lane_id_current:
  "current_green s = Some k \<Longrightarrow> green_lane_id s (lane_of s k) = k"
  using green_lane_id_found [of s "lane_of s k"]
  by (simp add: green_lane_current green_lane_id_def)

lemma position_cases:
  "(index_of k - index_of g) mod 4 \<in> {0, 1, 2, 3}"
  by (cases k; cases g) simp_all

lemma calculate_red_time_current:
  "calculate_red_time s k =
     (case current_green s of None \<Rightarrow> 0 | Some g \<Rightarrow> red_time_at s g k)"
proof (cases "current_green s")
  case None
  then show ?thesis by (simp add: calculate_red_time_def green_lane_current)
next
  case (Some g)
  then have "green_lane_id s (lane_of s g) = g"
    by (rule green_lane_id_current)
  with Some have "calculate_red_time s k =
      (let position = (index_of k - index_of g) mod 4 in
       if position = 0 then 0
       else if position = 1 then
         remaining_time (lane_of s g) + yellow_duration (system_settings s)
       else if position = 2 then
         remaining_time (lane_of s g) + yellow_duration (system_settings s)
           + cycle_duration (system_settings s)
       else
         remaining_time (lane_of s g) + yellow_duration (system_settings s)
           + cycle_duration (system_settings s) * 2)"
    by (simp add: calculate_red_time_def green_lane_current)
  also have "\<dots> = red_time_at s g k"
    by (cases k; cases g) (simp_all add: red_time_at_def)
  finally show ?thesis using Some by simp
qed

lemma current_green_unique:
  assumes "light (lane_of s g) = Green" and "\<forall>j. light (lane_of s j) = Green \<longrightarrow> j = g"
  shows "current_green s = Some g"
  using assms by (cases g) (auto simp add: current_green_def lanes_order_def lane_id_all)

text \<open>
  Claim C6. In a state with exactly one Green lane \<open>g\<close>, whose remaining time is \<open>r\<close>,
  \<open>calculate_red_time\<close> returns for a lane at rotation position \<open>p\<close> from \<open>g\<close>: 0 at
  position 0, \<open>r + Y\<close> at 1, \<open>r + Y + C\<close> at 2 and \<open>r + Y + 2 C\<close> at 3; with \<open>r = 10\<close>,
  \<open>Y = 3\<close>, \<open>C = 15\<close> that is 28 at position 2 and 43 at position 3.
\<close>

theorem calculate_red_time_exact:
  fixes s :: state and g k :: lane_id
  defines "p \<equiv> (index_of k - index_of g) mod 4"
    and "r \<equiv> remaining_time (lane_of s g)"
    and "Y \<equiv> yellow_duration (system_settings s)"
    and "C \<equiv> cycle_duration (system_settings s)"
  assumes "light (lane_of s g) = Green"
    and "\<forall>j. light (lane_of s j) = Green \<longrightarrow> j = g"
  shows "p \<in> {0, 1, 2, 3}
    \<and> (p = 0 \<longrightarrow> calculate_red_time s k = 0)
    \<and> (p = 1 \<longrightarrow> calculate_red_time s k = r + Y)
    \<and> (p = 2 \<longrightarrow> calculate_red_time s k = r + Y + C)
    \<and> (p = 3 \<longrightarrow> calculate_red_time s k = r + Y + 2 * C)
    \<and> (r = 10 \<and> Y = 3 \<and> C = 15 \<longrightarrow>
         (p = 2 \<longrightarrow> calculate_red_time s k = 28) \<and> (p = 3 \<longrightarrow> calculate_red_time s k = 43))"
proof -
  have "calculate_red_time s k = red_time_at s g k"
    using current_green_unique [OF assms(5,6)] by (simp add: calculate_red_time_current)
  then show ?thesis
    unfolding assms(1-4) by (cases k; cases g) (simp_all add: red_time_at_def)
qed

theorem calculate_red_time_exact_witness:
  "light (lane_of timing_example Lane1) = Green
   \<and> light (lane_of timing_example Lane2) \<noteq> Green
   \<and> light (lane_of timing_example Lane3) \<noteq> Green
   \<and> light (lane_of timing_example Lane4) \<noteq> Green
   \<and> remaining_time (lane_of timing_example Lane1) = 10
   \<and> calculate_red_time timing_example Lane3 = 28
   \<and> calculate_red_time timing_example Lane4 = 43"
proof -
  have g: "light (lane_of timing_example Lane1) = Green"
    by (simp add: timing_example_def initial_state_def)
  have u: "\<forall>j. light (lane_of timing_example j) = Green \<longrightarrow> j = Lane1"
    by (simp add: lane_id_all timing_example_def initial_state_def)
  have r: "remaining_time (lane_of timing_example Lane1) = 10"
    "yellow_duration (system_settings timing_example) = 3"
    "cycle_duration (system_settings timing_example) = 15"
    by (simp_all add: timing_example_def initial_state_def)
  have n: "light (lane_of timing_example Lane2) \<noteq> Green"
    "light (lane_of timing_example Lane3) \<noteq> Green"
    "light (lane_of timing_example Lane4) \<noteq> Green"
    by (simp_all add: timing_example_def initial_state_def)
  show ?thesis
    using g n r calculate_red_time_exact [OF g u, of Lane3]
      calculate_red_time_exact [OF g u, of Lane4]
    by simp
qed

declare lane_of.simps [simp del] set_lane.simps [simp del]

subsection \<open>The timer loop\<close>

lemma decrement_lane_settings [simp]:
  "system_settings (decrement_lane k s) = system_settings s"
  by (simp add: decrement_lane_def Let_def)

lemma decrement_lane_other [simp]:
  "j \<noteq> k \<Longrightarrow> lane_of (decrement_lane k s) j = lane_of s j"
  by (simp add: decrement_lane_def Let_def)

lemma decrement_lane_fields [simp]:
  "light (lane_of (decrement_lane k s) j) = light (lane_of s j)"
  "next_state (lane_of (decrement_lane k s) j) = next_state (lane_of s j)"
  "emergency (lane_of (decrement_lane k s) j) = emergency (lane_of s j)"
  "weight (lane_of (decrement_lane k s) j) = weight (lane_of s j)"
  "vehicle_count (lane_of (decrement_lane k s) j) = vehicle_count (lane_of s j)"
  by (simp_all add: decrement_lane_def Let_def)

lemma decrement_timers_settings [simp]:
  "system_settings (decrement_timers s) = system_settings s"
  by (simp add: decrement_timers_def lanes_order_def)

lemma decrement_timers_fields [simp]:
  "light (lane_of (decrement_timers s) j) = light (lane_of s j)"
  "next_state (lane_of (decrement_timers s) j) = next_state (lane_of s j)"
  "emergency (lane_of (decrement_timers s) j) = emergency (lane_of s j)"
  "weight (lane_of (decrement_timers s) j) = weight (lane_of s j)"
  "vehicle_count (lane_of (decrement_timers s) j) = vehicle_count (lane_of s j)"
  by (simp_all add: decrement_timers_def lanes_order_def)

lemma decrement_lane_time:
  "remaining_time (lane_of (decrement_lane k s) j) =
     (if j = k then
        (if remaining_time (lane_of s k) > 0 then remaining_time (lane_of s k) - 1
         else if light (lane_of s k) = Red then calculate_red_time s k
         else remaining_time (lane_of s k))
      else remaining_time (lane_of s j))"
  by (simp add: decrement_lane_def Let_def)

lemma decrement_timers_pos:
  "remaining_time (lane_of s k) > 0 \<Longrightarrow>
     remaining_time (lane_of (decrement_timers s) k) = remaining_time (lane_of s k) - 1"
  by (cases k) (simp_all add: decrement_timers_def lanes_order_def decrement_lane_time)

lemma decrement_timers_keep:
  "remaining_time (lane_of s k) \<le> 0 \<Longrightarrow> light (lane_of s k) \<noteq> Red \<Longrightarrow>
     remaining_time (lane_of (decrement_timers s) k) = remaining_time (lane_of s k)"
  by (cases k) (simp_all add: decrement_timers_def lanes_order_def decrement_lane_time)

subsection \<open>The transition loop\<close>

lemma transition_lane_settings [simp]:
  "system_settings (transition_lane k s) = system_settings s"
  by (simp add: transition_lane_def Let_def split: option.splits)

lemma transition_lane_other [simp]:
  "j \<noteq> k \<Longrightarrow> lane_of (transition_lane k s) j = lane_of s j"
  by (simp add: transition_lane_def Let_def split: option.splits)

lemma transition_lane_idle:
  "remaining_time (lane_of s k) > 0 \<or> next_state (lane_of s k) = None \<Longrightarrow>
     transition_lane k s = s"
  by (auto simp add: transition_lane_def Let_def)

lemma transition_lane_fires:
  assumes "remaining_time (lane_of s k) \<le> 0" and "next_state (lane_of s k) = Some n"
  shows "light (lane_of (transition_lane k s) k) = n"
    and "next_state (lane_of (transition_lane k s) k) = None"
    and "emergency (lane_of (transition_lane k s) k) = emergency (lane_of s k)"
    and "weight (lane_of (transition_lane k s) k) = weight (lane_of s k)"
    and "vehicle_count (lane_of (transition_lane k s) k) = vehicle_count (lane_of s k)"
    and "remaining_time (lane_of (transition_lane k s) k) =
          (if n = Green then cycle_duration (system_settings s)
           else if n = Yellow then yellow_duration (system_settings s)
           else calculate_red_time (set_lane k ((lane_of s k)\<lparr>light := n, next_state := None\<rparr>) s) k)"
  using assms by (simp_all add: transition_lane_def Let_def)

lemma transition_lane_observed [simp]:
  "emergency (lane_of (transition_lane k s) j) = emergency (lane_of s j)"
  "weight (lane_of (transition_lane k s) j) = weight (lane_of s j)"
  "vehicle_count (lane_of (transition_lane k s) j) = vehicle_count (lane_of s j)"
  by (simp_all add: transition_lane_def Let_def split: option.splits)

lemma transition_lane_light:
  "light (lane_of (transition_lane k s) j) =
     (if j = k \<and> remaining_time (lane_of s k) \<le> 0 \<and> next_state (lane_of s k) \<noteq> None
      then the (next_state (lane_of s k)) else light (lane_of s j))"
  by (auto simp add: transition_lane_def Let_def split: option.splits)

lemma transition_lane_next:
  "next_state (lane_of (transition_lane k s) j) =
     (if j = k \<and> remaining_time (lane_of s k) \<le> 0 then None else next_state (lane_of s j))"
  by (auto simp add: transition_lane_def Let_def split: option.splits)

lemma transition_lane_time_other:
  "j \<noteq> k \<Longrightarrow> remaining_time (lane_of (transition_lane k s) j) = remaining_time (lane_of s j)"
  by simp

lemma handle_transitions_settings [simp]:
  "system_settings (handle_transitions s) = system_settings s"
  by (simp add: handle_transitions_def lanes_order_def)

lemma handle_transitions_observed [simp]:
  "emergency (lane_of (handle_transitions s) j) = emergency (lane_of s j)"
  "weight (lane_of (handle_transitions s) j) = weight (lane_of s j)"
  "vehicle_count (lane_of (handle_transitions s) j) = vehicle_count (lane_of s j)"
  by (simp_all add: handle_transitions_def lanes_order_def)

lemma handle_transitions_light:
  "light (lane_of (handle_transitions s) j) =
     (if remaining_time (lane_of s j) \<le> 0 \<and> next_state (lane_of s j) \<noteq> None
      then the (next_state (lane_of s j)) else light (lane_of s j))"
  by (cases j)
    (auto simp add: handle_transitions_def lanes_order_def transition_lane_light
      transition_lane_next)

lemma handle_transitions_next:
  "next_state (lane_of (handle_transitions s) j) =
     (if remaining_time (lane_of s j) \<le> 0 then None else next_state (lane_of s j))"
  by (cases j)
    (auto simp add: handle_transitions_def lanes_order_def transition_lane_light
      transition_lane_next)

lemma give_priority_lane_settings [simp]:
  "system_settings (give_priority_lane t k s) = system_settings s"
  by (simp add: give_priority_lane_def Let_def)

lemma give_priority_lane_lane:
  "lane_of (give_priority_lane t k s) j =
     (if j = k then forced (k = t) (yellow_duration (system_settings s)) (lane_of s k)
      else lane_of s j)"
  by (cases "light (lane_of s k)") (simp_all add: give_priority_lane_def Let_def forced_def)

lemma give_priority_settings [simp]:
  "system_settings (give_priority t s) = system_settings s"
  by (simp add: give_priority_def lanes_order_def)

lemma give_priority_lane_of:
  "lane_of (give_priority t s) j =
     forced (j = t) (yellow_duration (system_settings s)) (lane_of s j)"
  by (cases j) (simp_all add: give_priority_def lanes_order_def give_priority_lane_lane)

lemma forced_light:
  "light (forced b Y l) =
     (if b then (if light l = Red then Yellow else light l)
      else (if light l = Green then Yellow else light l))"
  by (cases "light l") (simp_all add: forced_def)

lemma forced_next:
  "next_state (forced b Y l) =
     (if b then (if light l = Green then next_state l else Some Green)
      else (if light l = Red then next_state l else Some Red))"
  by (cases "light l") (auto simp add: forced_def)

lemma forced_observed [simp]:
  "emergency (forced b Y l) = emergency l"
  "weight (forced b Y l) = weight l"
  "vehicle_count (forced b Y l) = vehicle_count l"
  by (simp_all add: forced_def)

lemma lights_ok_decrement_timers: "lights_ok (decrement_timers s) = lights_ok s"
  by (simp add: lights_ok_def)

lemma light_cases: "l = Red \<or> l = Yellow \<or> l = Green"
  by (cases l) simp_all

lemma lights_ok_handle_transitions:
  assumes "lights_ok s"
  shows "lights_ok (handle_transitions s)"
proof -
  let ?L = "\<lambda>k. light (lane_of s k)" and ?N = "\<lambda>k. next_state (lane_of s k)"
  let ?T = "\<lambda>k. remaining_time (lane_of s k)"
  from assms have a: "\<And>i j. ?L i = Green \<Longrightarrow> ?L j = Green \<Longrightarrow> i = j"
    and b: "\<And>i j. ?N i = Some Green \<Longrightarrow> ?N j = Some Green \<Longrightarrow> i = j"
    and c: "\<And>i j. ?N i = Some Green \<Longrightarrow> ?L j \<noteq> Green"
    and d: "\<And>i. ?N i \<noteq> None \<Longrightarrow> ?L i = Yellow"
    unfolding lights_ok_def by blast+
  show ?thesis
    unfolding lights_ok_def handle_transitions_light handle_transitions_next
  proof (intro conjI allI impI)
    fix i j
    assume "(if ?T i \<le> 0 \<and> ?N i \<noteq> None then the (?N i) else ?L i) = Green \<and>
            (if ?T j \<le> 0 \<and> ?N j \<noteq> None then the (?N j) else ?L j) = Green"
    then show "i = j"
      using a b c d by (auto split: if_splits)
  next
    fix i j
    assume "(if ?T i \<le> 0 then None else ?N i) = Some Green \<and>
            (if ?T j \<le> 0 then None else ?N j) = Some Green"
    then show "i = j" using b by (auto split: if_splits)
  next
    fix i j
    assume "(if ?T i \<le> 0 then None else ?N i) = Some Green"
    then have i: "?N i = Some Green" "\<not> ?T i \<le> 0" by (auto split: if_splits)
    show "(if ?T j \<le> 0 \<and> ?N j \<noteq> None then the (?N j) else ?L j) \<noteq> Green"
      using b [OF i(1), of j] c [OF i(1), of j] i(2) by (auto split: if_splits)
  next
    fix i
    assume "(if ?T i \<le> 0 then None else ?N i) \<noteq> None"
    then show "(if ?T i \<le> 0 \<and> ?N i \<noteq> None then the (?N i) else ?L i) = Yellow"
      using d [of i] by (auto split: if_splits)
  qed
qed

lemma lights_ok_give_priority:
  assumes "lights_ok s"
  shows "lights_ok (give_priority t s)"
proof -
  let ?L = "\<lambda>k. light (lane_of s k)" and ?N = "\<lambda>k. next_state (lane_of s k)"
  from assms have a: "\<And>i j. ?L i = Green \<Longrightarrow> ?L j = Green \<Longrightarrow> i = j"
    and d: "\<And>i. ?N i \<noteq> None \<Longrightarrow> ?L i = Yellow"
    unfolding lights_ok_def by blast+
  have d': "\<And>i. ?L i = Red \<Longrightarrow> ?N i = None" "\<And>i. ?L i = Green \<Longrightarrow> ?N i = None"
    using d by fastforce+
  show ?thesis
    unfolding lights_ok_def give_priority_lane_of forced_light forced_next
  proof (intro conjI allI impI)
    fix i j
    assume "(if i = t then if ?L i = Red then Yellow else ?L i
             else if ?L i = Green then Yellow else ?L i) = Green \<and>
            (if j = t then if ?L j = Red then Yellow else ?L j
             else if ?L j = Green then Yellow else ?L j) = Green"
    then show "i = j" by (auto split: if_splits)
  next
    fix i j
    assume "(if i = t then if ?L i = Green then ?N i else Some Green
             else if ?L i = Red then ?N i else Some Red) = Some Green \<and>
            (if j = t then if ?L j = Green then ?N j else Some Green
             else if ?L j = Red then ?N j else Some Red) = Some Green"
    then show "i = j" using d' by (auto split: if_splits)
  next
    fix i j
    assume "(if i = t then if ?L i = Green then ?N i else Some Green
             else if ?L i = Red then ?N i else Some Red) = Some Green"
    then show "(if j = t then if ?L j = Red then Yellow else ?L j
             else if ?L j = Green then Yellow else ?L j) \<noteq> Green"
      using d' by (auto split: if_splits)
  next
    fix i
    assume "(if i = t then if ?L i = Green then ?N i else Some Green
             else if ?L i = Red then ?N i else Some Red) \<noteq> None"
    then show "(if i = t then if ?L i = Red then Yellow else ?L i
             else if ?L i = Green then Yellow else ?L i) = Yellow"
      using d' light_cases [of "?L i"] by (auto split: if_splits)
  qed
qed

lemma update_lane_settings [simp]:
  "system_settings (update_lane k li ns t s) = system_settings s"
  by (simp add: update_lane_def)

lemma update_lane_lane:
  "lane_of (update_lane k li ns t s) j =
     (if j = k then (lane_of s k)\<lparr>light := li, next_state := ns, remaining_time := t\<rparr>
      else lane_of s j)"
  by (simp add: update_lane_def)

lemma list_ex_lanes: "list_ex P lanes_order \<longleftrightarrow> (\<exists>k. P k)"
  by (simp add: lanes_order_def lane_id_ex)

lemma current_green_None: "current_green s = None \<longleftrightarrow> (\<forall>k. light (lane_of s k) \<noteq> Green)"
  by (simp add: current_green_def lanes_order_def lane_id_all)

lemma current_green_Some:
  "current_green s = Some g \<longleftrightarrow>
     light (lane_of s g) = Green \<and> (\<forall>j. index_of j < index_of g \<longrightarrow> light (lane_of s j) \<noteq> Green)"
  by (cases g) (auto simp add: current_green_def lanes_order_def lane_id_all)

lemma next_in_order:
  "lanes_order ! nat ((index_of g + 1) mod int (length lanes_order)) = next_lane g"
  by (cases g) (simp_all add: lanes_order_def)

lemma next_lane_neq [simp]: "next_lane g \<noteq> g" "g \<noteq> next_lane g"
  by (cases g; simp)+

lemma normal_operation_cases:
  "normal_operation s =
     (if \<exists>k. light (lane_of s k) = Yellow then s
      else case current_green s of
        None \<Rightarrow> update_lane Lane4 Yellow (Some Green) (yellow_duration (system_settings s)) s
      | Some g \<Rightarrow>
          if remaining_time (lane_of s g) > 0 then s
          else update_lane (next_lane g) Yellow (Some Green) (yellow_duration (system_settings s))
                 (update_lane g Yellow (Some Red) (yellow_duration (system_settings s)) s))"
  by (simp add: normal_operation_def list_ex_lanes next_in_order Let_def split: option.splits)

lemma normal_operation_settings [simp]:
  "system_settings (normal_operation s) = system_settings s"
  by (simp add: normal_operation_cases split: option.splits)

lemma lights_ok_normal_operation:
  assumes "lights_ok s"
  shows "lights_ok (normal_operation s)"
proof (cases "\<exists>k. light (lane_of s k) = Yellow")
  case True
  then show ?thesis using assms by (simp add: normal_operation_cases)
next
  case False
  with assms have none: "\<And>i. next_state (lane_of s i) = None"
    unfolding lights_ok_def by blast
  show ?thesis
  proof (cases "current_green s")
    case None
    then have "\<And>k. light (lane_of s k) \<noteq> Green" by (simp add: current_green_None)
    then show ?thesis
      using False None none
      by (simp add: normal_operation_cases lights_ok_def update_lane_lane)
  next
    case (Some g)
    then have g: "light (lane_of s g) = Green" by (simp add: current_green_Some)
    with assms have only: "\<And>k. light (lane_of s k) = Green \<Longrightarrow> k = g"
      unfolding lights_ok_def by blast
    show ?thesis
    proof (cases "remaining_time (lane_of s g) > 0")
      case True
      then show ?thesis using assms False Some by (simp add: normal_operation_cases)
    next
      case short: False
      show ?thesis
        using False Some short none only
        by (auto simp add: normal_operation_cases lights_ok_def update_lane_lane)
    qed
  qed
qed

lemma lights_ok_update_traffic_lights:
  assumes "lights_ok s"
  shows "lights_ok (update_traffic_lights s)"
proof -
  have "lights_ok (handle_transitions (decrement_timers s))"
    using assms by (simp add: lights_ok_handle_transitions lights_ok_decrement_timers)
  then show ?thesis
    by (simp add: update_traffic_lights_def Let_def lights_ok_give_priority
        lights_ok_normal_operation split: option.splits)
qed

subsection \<open>The timer reset of update_settings\<close>

lemma reset_lane_settings [simp]: "system_settings (reset_lane i k s) = system_settings s"
  by (simp add: reset_lane_def Let_def)

lemma reset_lane_lane:
  "lane_of (reset_lane i k s) j =
     (if j = k then
        (if (index_of k - i) mod 4 = 0 then
           (lane_of s k)\<lparr>light := Green, next_state := None,
                           remaining_time := cycle_duration (system_settings s)\<rparr>
         else
           (lane_of s k)\<lparr>light := Red, next_state := None,
              remaining_time := (index_of k - i) mod 4 * cycle_duration (system_settings s)\<rparr>)
      else lane_of s j)"
  by (simp add: reset_lane_def Let_def update_lane_lane)

lemma reset_timers_settings [simp]: "system_settings (reset_timers s) = system_settings s"
  by (simp add: reset_timers_def lanes_order_def Let_def)

lemma reset_timers_lane:
  "lane_of (reset_timers s) k =
     (let anchor = get_or (current_green s) Lane4;
          position = (index_of k - index_of anchor) mod 4
      in if position = 0 then
           (lane_of s k)\<lparr>light := Green, next_state := None,
                           remaining_time := cycle_duration (system_settings s)\<rparr>
         else
           (lane_of s k)\<lparr>light := Red, next_state := None,
              remaining_time := position * cycle_duration (system_settings s)\<rparr>)"
  by (cases k) (simp_all add: reset_timers_def lanes_order_def Let_def reset_lane_lane)

lemma position_zero: "(index_of k - index_of g) mod 4 = 0 \<longleftrightarrow> k = g"
  by (cases k; cases g) simp_all

lemma lights_ok_reset_timers: "lights_ok (reset_timers s)"
  by (auto simp add: lights_ok_def reset_timers_lane Let_def position_zero split: if_splits)

lemma lane_of_settings_update [simp]:
  "lane_of (s\<lparr>system_settings := st\<rparr>) k = lane_of s k"
  by (cases k) (simp_all add: lane_of.simps)

lemma lights_ok_settings_update [simp]:
  "lights_ok (s\<lparr>system_settings := st\<rparr>) = lights_ok s"
  by (simp add: lights_ok_def)

lemma lights_ok_update_settings:
  assumes "lights_ok s"
  shows "lights_ok (snd (update_settings body s))"
  using assms
  by (simp add: update_settings_def Let_def lights_ok_reset_timers
      split: sum.splits)

lemma detect_objects_fields [simp]:
  "light (lane_of (detect_objects k boxes s) j) = light (lane_of s j)"
  "next_state (lane_of (detect_objects k boxes s) j) = next_state (lane_of s j)"
  "remaining_time (lane_of (detect_objects k boxes s) j) = remaining_time (lane_of s j)"
  "system_settings (detect_objects k boxes s) = system_settings s"
  by (simp_all add: detect_objects_def)

lemma lights_ok_detect_objects: "lights_ok (detect_objects k boxes s) = lights_ok s"
  by (simp add: lights_ok_def)

lemma lights_ok_initial: "lights_ok initial_state"
  by (simp add: lights_ok_def lane_id_all initial_state_def lane_of.simps)

lemma reachable_lights_ok: "reachable s \<Longrightarrow> lights_ok s"
  by (induction rule: reachable.induct)
    (simp_all add: lights_ok_initial lights_ok_update_traffic_lights lights_ok_update_settings
      lights_ok_detect_objects)




lemmas tick_defs = update_traffic_lights_def handle_transitions_def decrement_timers_def
  decrement_lane_def transition_lane_def calculate_red_time_def green_lane_def green_lane_id_def
  emergency_lane_def give_priority_def give_priority_lane_def high_weight_lanes_def max_lane_def
  current_green_def update_lane_def normal_operation_def lanes_order_def lane_of.simps
  set_lane.simps Let_def

lemmas settings_defs = update_settings_def reset_timers_def reset_lane_def update_lane_def
  get_or_def current_green_def lanes_order_def lane_of.simps set_lane.simps Let_def

lemma reachable_funpow: "reachable s \<Longrightarrow> reachable ((update_traffic_lights ^^ n) s)"
  by (induction n) (simp_all add: reach_tick)

lemma current_green_settings_update [simp]:
  "current_green (s\<lparr>system_settings := st\<rparr>) = current_green s"
  by (simp add: current_green_def)

lemma update_settings_success:
  assumes "update_settings body s = (Success, s')"
  obtains data c y where "body = Inr data"
    and "py_int (get_or (req_duration data) (Numeric (cycle_duration (system_settings s)))) = Inr c"
    and "py_int (get_or (req_yellow_duration data) (Numeric (yellow_duration (system_settings s))))
           = Inr y"
    and "s' = reset_timers (s\<lparr>system_settings :=
            (system_settings s)\<lparr>mode := get_or (req_mode data) (mode (system_settings s)),
                                 cycle_duration := c, yellow_duration := y\<rparr>\<rparr>)"
  using assms
  by (auto simp add: update_settings_def Let_def split: sum.splits)

lemma update_settings_success_lane:
  assumes "update_settings body s = (Success, s')"
  shows "lane_of s' k =
     (let position = (index_of k - index_of (get_or (current_green s) Lane4)) mod 4 in
      if position = 0 then
        (lane_of s k)\<lparr>light := Green, next_state := None,
                        remaining_time := cycle_duration (system_settings s')\<rparr>
      else
        (lane_of s k)\<lparr>light := Red, next_state := None,
                        remaining_time := position * cycle_duration (system_settings s')\<rparr>)"
  using assms
  by (elim update_settings_success) (simp add: reset_timers_lane Let_def)

lemma update_settings_success_duration:
  assumes "update_settings (Inr data) s = (Success, s')"
    and "req_duration data = Some (Numeric c)"
  shows "cycle_duration (system_settings s') = c"
  using assms
  by (elim update_settings_success) (simp add: get_or_def)

lemma reachable_green_current:
  assumes "reachable s" and "light (lane_of s g) = Green"
  shows "current_green s = Some g"
proof -
  from assms(1) have "lights_ok s" by (rule reachable_lights_ok)
  with assms(2) have "\<forall>j. light (lane_of s j) = Green \<longrightarrow> j = g"
    unfolding lights_ok_def by blast
  with assms(2) show ?thesis by (rule current_green_unique)
qed

text \<open>
  Claim C8. A successful settings request made while a lane is Green keeps that lane Green
  with the new cycle duration as its time and no pending state, and makes every other lane
  Red, with no pending state and a time of its rotation position from the Green lane times
  the new cycle duration; from lane2 that is 1, 2 and 3 cycle durations for lane3, lane4
  and lane1.
\<close>

theorem settings_reset_keeps_anchor:
  assumes "reachable s"
    and "light (lane_of s g) = Green"
    and "update_settings body s = (Success, s')"
  shows "light (lane_of s' g) = Green
    \<and> remaining_time (lane_of s' g) = cycle_duration (system_settings s')
    \<and> next_state (lane_of s' g) = None
    \<and> (\<forall>k. k \<noteq> g \<longrightarrow>
          light (lane_of s' k) = Red \<and> next_state (lane_of s' k) = None
          \<and> remaining_time (lane_of s' k) =
              ((index_of k - index_of g) mod 4) * cycle_duration (system_settings s'))
    \<and> (g = Lane2 \<longrightarrow>
          remaining_time (lane_of s' Lane3) = 1 * cycle_duration (system_settings s')
          \<and> remaining_time (lane_of s' Lane4) = 2 * cycle_duration (system_settings s')
          \<and> remaining_time (lane_of s' Lane1) = 3 * cycle_duration (system_settings s'))
    \<and> (\<forall>data c. body = Inr data \<and> req_duration data = Some (Numeric c) \<longrightarrow>
          cycle_duration (system_settings s') = c)"
proof -
  have cg: "current_green s = Some g"
    using assms(1,2) by (rule reachable_green_current)
  have lane: "\<And>k. lane_of s' k =
     (if k = g then
        (lane_of s k)\<lparr>light := Green, next_state := None,
                        remaining_time := cycle_duration (system_settings s')\<rparr>
      else
        (lane_of s k)\<lparr>light := Red, next_state := None,
           remaining_time := (index_of k - index_of g) mod 4 * cycle_duration (system_settings s')\<rparr>)"
    by (simp add: update_settings_success_lane [OF assms(3)] cg get_or_def Let_def position_zero)
  have dur: "\<forall>data c. body = Inr data \<and> req_duration data = Some (Numeric c) \<longrightarrow>
          cycle_duration (system_settings s') = c"
    using assms(3) update_settings_success_duration by blast
  show ?thesis
    using dur by (simp add: lane)
qed

theorem settings_reset_keeps_anchor_witness:
  "light (lane_of lane2_green_state Lane2) = Green
   \<and> fst (update_settings duration_request lane2_green_state) = Success
   \<and> light (lane_of (snd (update_settings duration_request lane2_green_state)) Lane2) = Green
   \<and> remaining_time (lane_of (snd (update_settings duration_request lane2_green_state)) Lane2) = 20
   \<and> remaining_time (lane_of (snd (update_settings duration_request lane2_green_state)) Lane3) = 20
   \<and> remaining_time (lane_of (snd (update_settings duration_request lane2_green_state)) Lane4) = 40
   \<and> remaining_time (lane_of (snd (update_settings duration_request lane2_green_state)) Lane1) = 60"
proof -
  let ?s' = "snd (update_settings duration_request lane2_green_state)"
  have r: "reachable lane2_green_state"
    unfolding lane2_green_state_def by (intro reachable_funpow reach_init)
  have st: "lane2_green_state =
     \<lparr>lane1 = \<lparr>emergency = False, remaining_time = 0, light = Red, vehicle_count = 0,
                weight = 0, next_state = None\<rparr>,
      lane2 = \<lparr>emergency = False, remaining_time = 15, light = Green, vehicle_count = 0,
                weight = 0, next_state = None\<rparr>,
      lane3 = \<lparr>emergency = False, remaining_time = 15, light = Red, vehicle_count = 0,
                weight = 0, next_state = None\<rparr>,
      lane4 = \<lparr>emergency = False, remaining_time = 30, light = Red, vehicle_count = 0,
                weight = 0, next_state = None\<rparr>,
      system_settings = \<lparr>mode = ''auto'', cycle_duration = 15, yellow_duration = 3,
                          weight_threshold = 6\<rparr>\<rparr>"
    by (simp add: lane2_green_state_def initial_state_def tick_defs eval_nat_numeral)
  have g: "light (lane_of lane2_green_state Lane2) = Green"
    by (simp add: st lane_of.simps)
  have ok: "fst (update_settings duration_request lane2_green_state) = Success"
    by (simp add: st duration_request_def settings_defs)
  then have u: "update_settings duration_request lane2_green_state = (Success, ?s')"
    by (metis prod.collapse)
  have c: "cycle_duration (system_settings ?s') = 20"
    by (simp add: st duration_request_def settings_defs)
  show ?thesis
    using g ok c settings_reset_keeps_anchor [OF r g u] by simp
qed

text \<open>
  Claim C10. A successful settings request made while no lane is Green anchors the reset at
  lane4: lane4 becomes Green with the cycle duration as its time, lane1, lane2 and lane3
  become Red with 1, 2 and 3 cycle durations, and no lane keeps a pending state.
\<close>

theorem settings_reset_without_green:
  assumes "\<forall>k. light (lane_of s k) \<noteq> Green"
    and "update_settings body s = (Success, s')"
  shows "light (lane_of s' Lane4) = Green
    \<and> remaining_time (lane_of s' Lane4) = cycle_duration (system_settings s')
    \<and> light (lane_of s' Lane1) = Red
    \<and> remaining_time (lane_of s' Lane1) = 1 * cycle_duration (system_settings s')
    \<and> light (lane_of s' Lane2) = Red
    \<and> remaining_time (lane_of s' Lane2) = 2 * cycle_duration (system_settings s')
    \<and> light (lane_of s' Lane3) = Red
    \<and> remaining_time (lane_of s' Lane3) = 3 * cycle_duration (system_settings s')
    \<and> (\<forall>k. next_state (lane_of s' k) = None)"
proof -
  have "current_green s = None"
    using assms(1) by (simp add: current_green_None)
  then have lane: "\<And>k. lane_of s' k =
     (let position = (index_of k - index_of Lane4) mod 4 in
      if position = 0 then
        (lane_of s k)\<lparr>light := Green, next_state := None,
                        remaining_time := cycle_duration (system_settings s')\<rparr>
      else
        (lane_of s k)\<lparr>light := Red, next_state := None,
                        remaining_time := position * cycle_duration (system_settings s')\<rparr>)"
    by (simp add: update_settings_success_lane [OF assms(2)] get_or_def)
  show ?thesis
    by (simp add: lane lane_id_all)
qed

theorem settings_reset_without_green_witness:
  "light (lane_of handoff_state Lane1) = Yellow
   \<and> light (lane_of handoff_state Lane4) = Yellow
   \<and> fst (update_settings duration_request handoff_state) = Success
   \<and> light (lane_of (snd (update_settings duration_request handoff_state)) Lane4) = Green
   \<and> remaining_time (lane_of (snd (update_settings duration_request handoff_state)) Lane4) = 20
   \<and> remaining_time (lane_of (snd (update_settings duration_request handoff_state)) Lane1) = 20
   \<and> remaining_time (lane_of (snd (update_settings duration_request handoff_state)) Lane2) = 40
   \<and> remaining_time (lane_of (snd (update_settings duration_request handoff_state)) Lane3) = 60
   \<and> next_state (lane_of (snd (update_settings duration_request handoff_state)) Lane1) = None"
proof -
  let ?s' = "snd (update_settings duration_request handoff_state)"
  have st: "handoff_state =
     \<lparr>lane1 = \<lparr>emergency = False, remaining_time = 3, light = Yellow, vehicle_count = 0,
                weight = 0, next_state = Some Green\<rparr>,
      lane2 = \<lparr>emergency = False, remaining_time = 29, light = Red, vehicle_count = 0,
                weight = 0, next_state = None\<rparr>,
      lane3 = \<lparr>emergency = False, remaining_time = 14, light = Red, vehicle_count = 0,
                weight = 0, next_state = None\<rparr>,
      lane4 = \<lparr>emergency = False, remaining_time = 3, light = Yellow, vehicle_count = 0,
                weight = 0, next_state = Some Red\<rparr>,
      system_settings = \<lparr>mode = ''auto'', cycle_duration = 15, yellow_duration = 3,
                          weight_threshold = 6\<rparr>\<rparr>"
    by (simp add: handoff_state_def initial_state_def tick_defs)
  have n: "\<forall>k. light (lane_of handoff_state k) \<noteq> Green"
    by (simp add: st lane_id_all lane_of.simps)
  have y: "light (lane_of handoff_state Lane1) = Yellow" "light (lane_of handoff_state Lane4) = Yellow"
    by (simp_all add: st lane_of.simps)
  have ok: "fst (update_settings duration_request handoff_state) = Success"
    by (simp add: st duration_request_def settings_defs)
  then have u: "update_settings duration_request handoff_state = (Success, ?s')"
    by (metis prod.collapse)
  have c: "cycle_duration (system_settings ?s') = 20"
    by (simp add: st duration_request_def settings_defs)
  show ?thesis
    using y ok c settings_reset_without_green [OF n u] by simp
qed

subsection \<open>Rejected requests\<close>

lemma update_settings_failure_keeps:
  assumes "fst (update_settings body s) = Failure msg"
  shows "(\<forall>k. lane_of (snd (update_settings body s)) k = lane_of s k)
    \<and> yellow_duration (system_settings (snd (update_settings body s)))
        = yellow_duration (system_settings s)
    \<and> weight_threshold (system_settings (snd (update_settings body s)))
        = weight_threshold (system_settings s)"
  using assms
  by (auto simp add: update_settings_def Let_def split: sum.splits)

text \<open>
  Claim C7, as the code has it. A request whose \<open>duration\<close> or \<open>yellow_duration\<close> value
  \<open>int\<close> cannot convert is answered with a failure that carries the conversion's message, and
  leaves every lane field, \<open>yellow_duration\<close> and \<open>weight_threshold\<close> as they were. A
  request whose values are integers, of whatever size or sign, is answered with success:
  there is no range check.
\<close>

theorem non_numeric_settings_rejected:
  fixes data :: request and s :: state
  defines "answer \<equiv> fst (update_settings (Inr data) s)"
    and "s' \<equiv> snd (update_settings (Inr data) s)"
  shows "(req_duration data = Some (NonNumeric msg)
       \<or> ((req_duration data = None \<or> (\<exists>c. req_duration data = Some (Numeric c)))
          \<and> req_yellow_duration data = Some (NonNumeric msg))
      \<longrightarrow> answer = Failure msg
        \<and> (\<forall>k. lane_of s' k = lane_of s k)
        \<and> yellow_duration (system_settings s') = yellow_duration (system_settings s)
        \<and> weight_threshold (system_settings s') = weight_threshold (system_settings s))
    \<and> ((req_duration data = None \<or> (\<exists>c. req_duration data = Some (Numeric c)))
        \<and> (req_yellow_duration data = None \<or> (\<exists>y. req_yellow_duration data = Some (Numeric y)))
      \<longrightarrow> answer = Success)"
proof (rule conjI; rule impI)
  assume bad: "req_duration data = Some (NonNumeric msg)
       \<or> ((req_duration data = None \<or> (\<exists>c. req_duration data = Some (Numeric c)))
          \<and> req_yellow_duration data = Some (NonNumeric msg))"
  then have f: "fst (update_settings (Inr data) s) = Failure msg"
    by (auto simp add: update_settings_def Let_def get_or_def split: sum.splits)
  with update_settings_failure_keeps [OF f]
  show "answer = Failure msg
        \<and> (\<forall>k. lane_of s' k = lane_of s k)
        \<and> yellow_duration (system_settings s') = yellow_duration (system_settings s)
        \<and> weight_threshold (system_settings s') = weight_threshold (system_settings s)"
    unfolding answer_def s'_def by blast
next
  assume "(req_duration data = None \<or> (\<exists>c. req_duration data = Some (Numeric c)))
        \<and> (req_yellow_duration data = None \<or> (\<exists>y. req_yellow_duration data = Some (Numeric y)))"
  then show "answer = Success"
    unfolding answer_def
    by (auto simp add: update_settings_def Let_def get_or_def split: sum.splits)
qed

theorem non_numeric_settings_rejected_witness:
  "fst (update_settings bad_duration_request initial_state)
     = Failure ''invalid literal for int() with base 10: 'abc' ''
   \<and> lane_of (snd (update_settings bad_duration_request initial_state)) Lane4
     = lane_of initial_state Lane4
   \<and> yellow_duration (system_settings (snd (update_settings bad_duration_request initial_state))) = 3
   \<and> fst (update_settings negative_duration_request initial_state) = Success"
proof -
  let ?msg = "''invalid literal for int() with base 10: 'abc' ''"
  let ?bad = "\<lparr>req_mode = Some ''manual'', req_duration = Some (NonNumeric ?msg),
      req_yellow_duration = None\<rparr>"
  let ?neg = "\<lparr>req_mode = None, req_duration = Some (Numeric (- 5)),
      req_yellow_duration = None\<rparr>"
  note rejected = non_numeric_settings_rejected [of ?bad ?msg initial_state, THEN conjunct1,
      rule_format]
  note accepted = non_numeric_settings_rejected [of ?neg _ initial_state, THEN conjunct2,
      rule_format]
  have b: "req_duration ?bad = Some (NonNumeric ?msg)
       \<or> ((req_duration ?bad = None \<or> (\<exists>c. req_duration ?bad = Some (Numeric c)))
          \<and> req_yellow_duration ?bad = Some (NonNumeric ?msg))"
    by simp
  have n: "(req_duration ?neg = None \<or> (\<exists>c. req_duration ?neg = Some (Numeric c)))
        \<and> (req_yellow_duration ?neg = None \<or> (\<exists>y. req_yellow_duration ?neg = Some (Numeric y)))"
    by simp
  have y: "yellow_duration (system_settings initial_state) = 3"
    by (simp add: initial_state_def)
  show ?thesis
    using rejected [OF b] accepted [OF n] y
    by (simp add: bad_duration_request_def negative_duration_request_def)
qed

theorem invalid_settings_counterexample:
  "fst (update_settings bad_duration_request initial_state)
     = Failure ''invalid literal for int() with base 10: 'abc' ''
   \<and> mode (system_settings initial_state) = ''auto''
   \<and> mode (system_settings (snd (update_settings bad_duration_request initial_state))) = ''manual''
   \<and> fst (update_settings negative_duration_request initial_state) = Success
   \<and> cycle_duration (system_settings (snd (update_settings negative_duration_request initial_state)))
       = - 5
   \<and> remaining_time (lane_of (snd (update_settings negative_duration_request initial_state)) Lane1)
       = - 5
   \<and> remaining_time (lane_of initial_state Lane1) = 45"
  by (simp add: bad_duration_request_def negative_duration_request_def initial_state_def
      settings_defs)

lemma emergency_lane_Some:
  "emergency_lane s = Some t \<longleftrightarrow>
     emergency (lane_of s t) \<and> (\<forall>j. index_of j < index_of t \<longrightarrow> \<not> emergency (lane_of s j))"
  by (cases t) (auto simp add: emergency_lane_def lanes_order_def lane_id_all)

lemma emergency_lane_None: "emergency_lane s = None \<longleftrightarrow> (\<forall>k. \<not> emergency (lane_of s k))"
  by (simp add: emergency_lane_def lanes_order_def lane_id_all)

lemma emergency_lane_resolved [simp]:
  "emergency_lane (handle_transitions (decrement_timers s)) = emergency_lane s"
  by (simp add: emergency_lane_def lanes_order_def)

lemma max_lane_resolved [simp]:
  "max_lane (handle_transitions (decrement_timers s)) = max_lane s"
  by (simp add: max_lane_def high_weight_lanes_def lanes_order_def)

lemma max_lane_None:
  "max_lane s = None \<longleftrightarrow>
     (\<forall>k. weight (lane_of s k) \<le> weight_threshold (system_settings s))"
  by (auto simp add: max_lane_def high_weight_lanes_def lanes_order_def lane_id_all
      split: list.splits if_splits)

lemma max_lane_Some:
  "max_lane s = Some t \<longleftrightarrow>
     weight (lane_of s t) > weight_threshold (system_settings s)
     \<and> (\<forall>j. weight (lane_of s j) \<le> weight (lane_of s t))
     \<and> (\<forall>j. index_of j < index_of t \<longrightarrow> weight (lane_of s j) < weight (lane_of s t))"
  by (cases t)
    (auto simp add: max_lane_def high_weight_lanes_def lanes_order_def lane_id_all
      split: list.splits if_splits)

lemma update_traffic_lights_emergency:
  "emergency_lane s = Some t \<Longrightarrow>
     update_traffic_lights s = give_priority t (handle_transitions (decrement_timers s))"
  by (simp add: update_traffic_lights_def Let_def)

lemma update_traffic_lights_weight:
  "emergency_lane s = None \<Longrightarrow> max_lane s = Some t \<Longrightarrow>
     update_traffic_lights s = give_priority t (handle_transitions (decrement_timers s))"
  by (simp add: update_traffic_lights_def Let_def)

lemma update_traffic_lights_normal:
  "emergency_lane s = None \<Longrightarrow> max_lane s = None \<Longrightarrow>
     update_traffic_lights s = normal_operation (handle_transitions (decrement_timers s))"
  by (simp add: update_traffic_lights_def Let_def)

lemma give_priority_target:
  fixes s :: state and t :: lane_id
  defines "l \<equiv> lane_of s t" and "Y \<equiv> yellow_duration (system_settings s)"
  shows "(light l = Red \<longrightarrow> lane_of (give_priority t s) t =
            l\<lparr>light := Yellow, next_state := Some Green, remaining_time := Y\<rparr>)
    \<and> (light l = Yellow \<longrightarrow> lane_of (give_priority t s) t = l\<lparr>next_state := Some Green\<rparr>)
    \<and> (light l = Green \<longrightarrow> lane_of (give_priority t s) t = l)"
  by (simp add: give_priority_lane_of forced_def l_def Y_def)

lemma give_priority_others:
  fixes s :: state and t k :: lane_id
  defines "l \<equiv> lane_of s k" and "Y \<equiv> yellow_duration (system_settings s)"
  assumes "k \<noteq> t"
  shows "(light l = Green \<longrightarrow> lane_of (give_priority t s) k =
            l\<lparr>light := Yellow, next_state := Some Red, remaining_time := Y\<rparr>)
    \<and> (light l = Yellow \<and> next_state l \<noteq> Some Red \<longrightarrow>
          lane_of (give_priority t s) k = l\<lparr>next_state := Some Red\<rparr>)
    \<and> (light l = Red \<or> (light l = Yellow \<and> next_state l = Some Red) \<longrightarrow>
          lane_of (give_priority t s) k = l)"
  using assms(3) by (auto simp add: give_priority_lane_of forced_def l_def Y_def)

text \<open>
  Claim C4. In a tick in which some lane has its emergency flag set, the target is the first
  such lane in the order lane1 .. lane4. After the timers are decremented and the due
  transitions made, the target is forced toward Green (Red becomes Yellow with pending Green
  and the yellow duration as time; Yellow gets pending Green; Green is untouched) and every
  other lane toward Red (Green becomes Yellow with pending Red and the yellow duration;
  Yellow not heading to Red gets pending Red; anything else is untouched). That is all the
  tick does: weights and the normal rotation play no part.
\<close>

theorem emergency_forcing:
  fixes s :: state and t :: lane_id
  defines "s2 \<equiv> handle_transitions (decrement_timers s)"
    and "s' \<equiv> update_traffic_lights s"
    and "Y \<equiv> yellow_duration (system_settings s)"
  assumes "emergency (lane_of s t)"
    and "\<forall>j. index_of j < index_of t \<longrightarrow> \<not> emergency (lane_of s j)"
  shows "emergency_lane s2 = Some t
    \<and> s' = give_priority t s2
    \<and> system_settings s' = system_settings s
    \<and> (light (lane_of s2 t) = Red \<longrightarrow> lane_of s' t =
          (lane_of s2 t)\<lparr>light := Yellow, next_state := Some Green, remaining_time := Y\<rparr>)
    \<and> (light (lane_of s2 t) = Yellow \<longrightarrow> lane_of s' t =
          (lane_of s2 t)\<lparr>next_state := Some Green\<rparr>)
    \<and> (light (lane_of s2 t) = Green \<longrightarrow> lane_of s' t = lane_of s2 t)
    \<and> (\<forall>k. k \<noteq> t \<longrightarrow>
          (light (lane_of s2 k) = Green \<longrightarrow> lane_of s' k =
             (lane_of s2 k)\<lparr>light := Yellow, next_state := Some Red, remaining_time := Y\<rparr>)
          \<and> (light (lane_of s2 k) = Yellow \<and> next_state (lane_of s2 k) \<noteq> Some Red \<longrightarrow>
               lane_of s' k = (lane_of s2 k)\<lparr>next_state := Some Red\<rparr>)
          \<and> (light (lane_of s2 k) = Red
               \<or> (light (lane_of s2 k) = Yellow \<and> next_state (lane_of s2 k) = Some Red) \<longrightarrow>
               lane_of s' k = lane_of s2 k))"
proof -
  have e: "emergency_lane s = Some t"
    using assms(4,5) by (simp add: emergency_lane_Some)
  then have tick: "s' = give_priority t s2"
    unfolding s'_def s2_def by (rule update_traffic_lights_emergency)
  have set: "system_settings s2 = system_settings s"
    by (simp add: s2_def)
  have others: "\<forall>k. k \<noteq> t \<longrightarrow>
          (light (lane_of s2 k) = Green \<longrightarrow> lane_of s' k =
             (lane_of s2 k)\<lparr>light := Yellow, next_state := Some Red, remaining_time := Y\<rparr>)
          \<and> (light (lane_of s2 k) = Yellow \<and> next_state (lane_of s2 k) \<noteq> Some Red \<longrightarrow>
               lane_of s' k = (lane_of s2 k)\<lparr>next_state := Some Red\<rparr>)
          \<and> (light (lane_of s2 k) = Red
               \<or> (light (lane_of s2 k) = Yellow \<and> next_state (lane_of s2 k) = Some Red) \<longrightarrow>
               lane_of s' k = lane_of s2 k)"
    using give_priority_others [of _ t s2] unfolding tick set Y_def by blast
  show ?thesis
    using e give_priority_target [of s2 t] others
    unfolding tick set Y_def by (simp add: s2_def)
qed

theorem emergency_forcing_witness:
  "emergency (lane_of emergency_example Lane1)
   \<and> light (lane_of emergency_example Lane1) = Red
   \<and> light (lane_of emergency_example Lane4) = Green
   \<and> light (lane_of (update_traffic_lights emergency_example) Lane1) = Yellow
   \<and> next_state (lane_of (update_traffic_lights emergency_example) Lane1) = Some Green
   \<and> remaining_time (lane_of (update_traffic_lights emergency_example) Lane1) = 3
   \<and> light (lane_of (update_traffic_lights emergency_example) Lane4) = Yellow
   \<and> next_state (lane_of (update_traffic_lights emergency_example) Lane4) = Some Red
   \<and> remaining_time (lane_of (update_traffic_lights emergency_example) Lane4) = 3"
proof -
  let ?s2 = "handle_transitions (decrement_timers emergency_example)"
  have e: "emergency (lane_of emergency_example Lane1)"
    by (simp add: emergency_example_def detect_objects_def initial_state_def lane_of.simps
        set_lane.simps)
  have f: "\<forall>j. index_of j < index_of Lane1 \<longrightarrow> \<not> emergency (lane_of emergency_example j)"
    by (simp add: lane_id_all)
  have l: "light (lane_of emergency_example Lane1) = Red"
    "light (lane_of emergency_example Lane4) = Green"
    "yellow_duration (system_settings emergency_example) = 3"
    by (simp_all add: emergency_example_def detect_objects_def initial_state_def lane_of.simps
        set_lane.simps)
  have l2: "light (lane_of ?s2 Lane1) = Red" "light (lane_of ?s2 Lane4) = Green"
    by (simp_all add: emergency_example_def detect_objects_def initial_state_def tick_defs)
  note forcing = emergency_forcing [OF e f, unfolded l(3)]
  have t1: "lane_of (update_traffic_lights emergency_example) Lane1 =
      (lane_of ?s2 Lane1)\<lparr>light := Yellow, next_state := Some Green, remaining_time := 3\<rparr>"
    using forcing l2(1) by blast
  have t4: "lane_of (update_traffic_lights emergency_example) Lane4 =
      (lane_of ?s2 Lane4)\<lparr>light := Yellow, next_state := Some Red, remaining_time := 3\<rparr>"
    using forcing l2(2) lane_id.distinct by blast
  show ?thesis
    using e l by (simp add: t1 t4)
qed

text \<open>
  Claim C5. In a tick with no emergency flag set, weight-based priority is given exactly when
  some lane's weight is strictly above \<open>weight_threshold\<close>; the lane chosen has the maximum
  weight and is the first such lane in the order lane1 .. lane4. With a threshold of 6 a
  lane of weight 6.0 (no lane above 6) triggers nothing and the normal rotation runs, while
  a lane of weight 6.01 (the others at most 6) is given priority.
\<close>

theorem weight_preemption:
  fixes s :: state
  defines "s2 \<equiv> handle_transitions (decrement_timers s)"
    and "s' \<equiv> update_traffic_lights s"
    and "T \<equiv> weight_threshold (system_settings s)"
  assumes "\<forall>k. \<not> emergency (lane_of s k)"
  shows "(max_lane s2 = None \<longleftrightarrow> (\<forall>k. weight (lane_of s k) \<le> T))
    \<and> (max_lane s2 = None \<longrightarrow> s' = normal_operation s2)
    \<and> (\<forall>t. max_lane s2 = Some t \<longleftrightarrow>
          T < weight (lane_of s t)
          \<and> (\<forall>j. weight (lane_of s j) \<le> weight (lane_of s t))
          \<and> (\<forall>j. index_of j < index_of t \<longrightarrow> weight (lane_of s j) < weight (lane_of s t)))
    \<and> (\<forall>t. max_lane s2 = Some t \<longrightarrow> s' = give_priority t s2)
    \<and> (T = 6 \<longrightarrow>
          (\<forall>t. weight (lane_of s t) = 6.0 \<and> (\<forall>j. weight (lane_of s j) \<le> 6) \<longrightarrow>
             max_lane s2 = None \<and> s' = normal_operation s2))
    \<and> (T = 6 \<longrightarrow>
          (\<forall>t. weight (lane_of s t) = 6.01 \<and> (\<forall>j. j \<noteq> t \<longrightarrow> weight (lane_of s j) \<le> 6) \<longrightarrow>
             max_lane s2 = Some t \<and> s' = give_priority t s2))"
proof -
  have e: "emergency_lane s = None"
    using assms(4) by (simp add: emergency_lane_None)
  have m: "max_lane s2 = max_lane s"
    by (simp add: s2_def)
  have none: "max_lane s = None \<longleftrightarrow> (\<forall>k. weight (lane_of s k) \<le> T)"
    by (simp add: max_lane_None T_def)
  have some: "\<And>t. max_lane s = Some t \<longleftrightarrow>
          T < weight (lane_of s t)
          \<and> (\<forall>j. weight (lane_of s j) \<le> weight (lane_of s t))
          \<and> (\<forall>j. index_of j < index_of t \<longrightarrow> weight (lane_of s j) < weight (lane_of s t))"
    by (simp add: max_lane_Some T_def)
  have normal: "max_lane s = None \<Longrightarrow> s' = normal_operation s2"
    unfolding s'_def s2_def using e by (rule update_traffic_lights_normal)
  have prio: "\<And>t. max_lane s = Some t \<Longrightarrow> s' = give_priority t s2"
    unfolding s'_def s2_def using e by (rule update_traffic_lights_weight)
  have six: "T = 6 \<Longrightarrow> weight (lane_of s t) = 6.0 \<and> (\<forall>j. weight (lane_of s j) \<le> 6)
      \<Longrightarrow> max_lane s = None" for t
    using none by simp
  have above: "max_lane s = Some t"
    if "T = 6" and "weight (lane_of s t) = 6.01 \<and> (\<forall>j. j \<noteq> t \<longrightarrow> weight (lane_of s j) \<le> 6)" for t
  proof -
    have le: "weight (lane_of s j) \<le> weight (lane_of s t)" for j
      using that(2) by (cases "j = t") auto
    have lt: "index_of j < index_of t \<Longrightarrow> weight (lane_of s j) < weight (lane_of s t)" for j
      using that(2) by (cases "j = t") auto
    show ?thesis
      using that le lt by (simp add: some)
  qed
  show ?thesis
    unfolding m using none some normal prio six above by blast
qed

theorem weight_preemption_witness:
  "light (lane_of (update_traffic_lights (weight_example 6.0)) Lane2) = Red
   \<and> next_state (lane_of (update_traffic_lights (weight_example 6.0)) Lane2) = None
   \<and> light (lane_of (update_traffic_lights (weight_example 6.01)) Lane2) = Yellow
   \<and> next_state (lane_of (update_traffic_lights (weight_example 6.01)) Lane2) = Some Green"
proof -
  have e: "\<forall>k. \<not> emergency (lane_of (weight_example w) k)" for w
    by (simp add: weight_example_def initial_state_def lane_id_all lane_of.simps)
  have T: "weight_threshold (system_settings (weight_example w)) = 6" for w
    by (simp add: weight_example_def initial_state_def)
  have w: "weight (lane_of (weight_example w) Lane2) = w" for w
    by (simp add: weight_example_def initial_state_def lane_of.simps)
  have o: "\<forall>j. j \<noteq> Lane2 \<longrightarrow> weight (lane_of (weight_example w) j) \<le> 6" for w
    by (simp add: weight_example_def initial_state_def lane_id_all lane_of.simps)
  have a: "\<forall>j. weight (lane_of (weight_example 6.0) j) \<le> 6"
    by (simp add: weight_example_def initial_state_def lane_id_all lane_of.simps)
  note at_six = weight_preemption [OF e, of "6.0", THEN conjunct2, THEN conjunct2,
      THEN conjunct2, THEN conjunct2, THEN conjunct1, rule_format]
  note above_six = weight_preemption [OF e, of "6.01", THEN conjunct2, THEN conjunct2,
      THEN conjunct2, THEN conjunct2, THEN conjunct2, rule_format]
  have n: "update_traffic_lights (weight_example 6.0) =
      normal_operation (handle_transitions (decrement_timers (weight_example 6.0)))"
    using at_six [OF T conjI [OF w a]] by (rule conjunct2)
  have p: "update_traffic_lights (weight_example 6.01) =
      give_priority Lane2 (handle_transitions (decrement_timers (weight_example 6.01)))"
    using above_six [OF T conjI [OF w o]] by (rule conjunct2)
  have l6: "light (lane_of (normal_operation (handle_transitions (decrement_timers
        (weight_example 6.0)))) Lane2) = Red"
    "next_state (lane_of (normal_operation (handle_transitions (decrement_timers
        (weight_example 6.0)))) Lane2) = None"
    by (simp_all add: weight_example_def initial_state_def tick_defs)
  have l7: "light (lane_of (give_priority Lane2 (handle_transitions (decrement_timers
        (weight_example 6.01)))) Lane2) = Yellow"
    "next_state (lane_of (give_priority Lane2 (handle_transitions (decrement_timers
        (weight_example 6.01)))) Lane2) = Some Green"
    by (simp_all add: weight_example_def initial_state_def tick_defs)
  show ?thesis
    unfolding n p using l6 l7 by blast
qed

lemma red_time_at_nonneg:
  assumes "0 \<le> remaining_time (lane_of s g)"
    and "0 \<le> cycle_duration (system_settings s)" and "0 \<le> yellow_duration (system_settings s)"
  shows "0 \<le> red_time_at s g k"
  using assms by (cases k; cases g) (simp_all add: red_time_at_def)

lemma red_time_at_positive:
  assumes "0 \<le> remaining_time (lane_of s g)"
    and "0 \<le> cycle_duration (system_settings s)" and "1 \<le> yellow_duration (system_settings s)"
    and "k \<noteq> g"
  shows "0 < red_time_at s g k"
  using assms by (cases k; cases g) (simp_all add: red_time_at_def)

lemma calculate_red_time_nonneg: "timers_ok s \<Longrightarrow> 0 \<le> calculate_red_time s k"
  by (simp add: calculate_red_time_current timers_ok_def red_time_at_nonneg split: option.splits)

lemma timers_ok_set_lane:
  "timers_ok s \<Longrightarrow> 0 \<le> remaining_time l \<Longrightarrow> timers_ok (set_lane k l s)"
  by (simp add: timers_ok_def)

lemma timers_ok_decrement_lane: "timers_ok s \<Longrightarrow> timers_ok (decrement_lane k s)"
  using calculate_red_time_nonneg [of s k]
  by (auto simp add: timers_ok_def decrement_lane_time)

lemma timers_ok_decrement_timers: "timers_ok s \<Longrightarrow> timers_ok (decrement_timers s)"
  by (simp add: decrement_timers_def lanes_order_def timers_ok_decrement_lane)

lemma timers_ok_transition_lane:
  assumes "timers_ok s"
  shows "timers_ok (transition_lane k s)"
proof (cases "remaining_time (lane_of s k) \<le> 0 \<and> next_state (lane_of s k) \<noteq> None")
  case False
  then have "transition_lane k s = s" by (auto intro: transition_lane_idle)
  with assms show ?thesis by simp
next
  case True
  then obtain n where n: "next_state (lane_of s k) = Some n" by auto
  let ?s1 = "set_lane k ((lane_of s k)\<lparr>light := n, next_state := None\<rparr>) s"
  have "timers_ok ?s1" using assms by (simp add: timers_ok_def)
  then have "0 \<le> calculate_red_time ?s1 k" by (rule calculate_red_time_nonneg)
  then have "0 \<le> remaining_time (lane_of (transition_lane k s) k)"
    using True n assms by (simp add: transition_lane_fires timers_ok_def)
  moreover have "remaining_time (lane_of (transition_lane k s) j) = remaining_time (lane_of s j)"
    if "j \<noteq> k" for j using that by simp
  ultimately show ?thesis
    using assms unfolding timers_ok_def
    by (metis transition_lane_settings)
qed

lemma timers_ok_handle_transitions: "timers_ok s \<Longrightarrow> timers_ok (handle_transitions s)"
  by (simp add: handle_transitions_def lanes_order_def timers_ok_transition_lane)

lemma forced_time:
  "remaining_time (forced b Y l) = remaining_time l \<or> remaining_time (forced b Y l) = Y"
  by (simp add: forced_def)

lemma timers_ok_give_priority: "timers_ok s \<Longrightarrow> timers_ok (give_priority t s)"
  unfolding timers_ok_def give_priority_settings give_priority_lane_of
  by (metis forced_time)

lemma timers_ok_update_lane:
  "timers_ok s \<Longrightarrow> 0 \<le> t \<Longrightarrow> timers_ok (update_lane k li ns t s)"
  by (simp add: timers_ok_def update_lane_lane)

lemma timers_ok_normal_operation: "timers_ok s \<Longrightarrow> timers_ok (normal_operation s)"
  by (simp add: normal_operation_cases timers_ok_update_lane timers_ok_def [of s]
      split: option.splits)

lemma timers_ok_update_traffic_lights:
  assumes "timers_ok s"
  shows "timers_ok (update_traffic_lights s)"
proof -
  have "timers_ok (handle_transitions (decrement_timers s))"
    using assms by (intro timers_ok_handle_transitions timers_ok_decrement_timers)
  then show ?thesis
    by (simp add: update_traffic_lights_def Let_def timers_ok_give_priority
        timers_ok_normal_operation split: option.splits)
qed

lemma handle_transitions_idle:
  assumes "remaining_time (lane_of s k) > 0 \<or> next_state (lane_of s k) = None"
  shows "lane_of (handle_transitions s) k = lane_of s k"
proof -
  have step: "lane_of (transition_lane j t) k = lane_of t k"
    if "lane_of t k = lane_of s k" for j t
  proof (cases "j = k")
    case True
    then show ?thesis using that assms by (simp add: transition_lane_idle)
  next
    case False
    then show ?thesis by simp
  qed
  show ?thesis
    by (simp add: handle_transitions_def lanes_order_def step)
qed

lemma decrement_lane_recomputes:
  assumes "timers_ok s" and "1 \<le> yellow_duration (system_settings s)"
    and "light (lane_of s k) = Red" and "remaining_time (lane_of s k) \<le> 0"
    and "light (lane_of s g) = Green"
  shows "0 < remaining_time (lane_of (decrement_lane k s) k)"
proof -
  from assms(5) have "current_green s \<noteq> None" by (auto simp add: current_green_None)
  then obtain g' where g': "current_green s = Some g'" by auto
  then have "light (lane_of s g') = Green" by (simp add: current_green_Some)
  with assms(3) have "k \<noteq> g'" by auto
  then have "0 < red_time_at s g' k"
    using assms(1,2) by (intro red_time_at_positive) (simp_all add: timers_ok_def)
  then show ?thesis
    using assms(3,4) g' by (simp add: decrement_lane_time calculate_red_time_current)
qed

lemma decrement_timers_recomputes:
  assumes "timers_ok s" and "1 \<le> yellow_duration (system_settings s)"
    and "light (lane_of s k) = Red" and "remaining_time (lane_of s k) \<le> 0"
    and "light (lane_of s g) = Green"
  shows "0 < remaining_time (lane_of (decrement_timers s) k)"
  using assms
  by (cases k)
    (simp_all add: decrement_timers_def lanes_order_def decrement_lane_recomputes
      timers_ok_decrement_lane)

lemma give_priority_time_pos:
  assumes "0 < remaining_time (lane_of s k)" and "0 < yellow_duration (system_settings s)"
  shows "0 < remaining_time (lane_of (give_priority t s) k)"
  using assms forced_time [of "k = t" "yellow_duration (system_settings s)" "lane_of s k"]
  by (auto simp add: give_priority_lane_of)

lemma normal_operation_time_pos:
  assumes "0 < remaining_time (lane_of s k)" and "0 < yellow_duration (system_settings s)"
  shows "0 < remaining_time (lane_of (normal_operation s) k)"
  using assms by (auto simp add: normal_operation_cases update_lane_lane split: option.splits)

lemma red_wait_recomputed:
  assumes "timers_ok s" and "1 \<le> yellow_duration (system_settings s)"
    and "light (lane_of s k) = Red" and "remaining_time (lane_of s k) \<le> 0"
    and "light (lane_of s g) = Green"
  shows "0 < remaining_time (lane_of (update_traffic_lights s) k)"
proof -
  let ?s1 = "decrement_timers s" and ?s2 = "handle_transitions (decrement_timers s)"
  have "0 < remaining_time (lane_of ?s1 k)"
    using assms by (rule decrement_timers_recomputes)
  then have "0 < remaining_time (lane_of ?s2 k)"
    by (simp add: handle_transitions_idle)
  moreover have "0 < yellow_duration (system_settings ?s2)"
    using assms(2) by simp
  ultimately show ?thesis
    by (simp add: update_traffic_lights_def Let_def give_priority_time_pos
        normal_operation_time_pos split: option.splits)
qed

lemma pending_transition_applied:
  assumes "light (lane_of s k) \<noteq> Red" and "remaining_time (lane_of s k) \<le> 1"
    and "next_state (lane_of s k) = Some n"
  shows "light (lane_of (handle_transitions (decrement_timers s)) k) = n
    \<and> next_state (lane_of (handle_transitions (decrement_timers s)) k) = None"
proof -
  have "remaining_time (lane_of (decrement_timers s) k) \<le> 0"
  proof (cases "remaining_time (lane_of s k) > 0")
    case True
    then show ?thesis using assms(2) by (simp add: decrement_timers_pos)
  next
    case False
    then show ?thesis using assms(1) by (simp add: decrement_timers_keep)
  qed
  then show ?thesis
    using assms(3) by (simp add: handle_transitions_light handle_transitions_next)
qed

text \<open>
  Claim C9, as the code has it. When every timer and both durations are non-negative, every
  timer is non-negative after a tick. A Red lane at 0 has its wait recomputed to a positive
  value in the tick when some lane is Green and the yellow duration is at least 1; a lane
  that is not Red, has a pending state and a timer of at most 1 has that transition made by
  the tick's transition loop. Nothing is said of a Green lane at 0 that holds priority.
\<close>

theorem timers_stay_non_negative:
  fixes s :: state
  defines "s2 \<equiv> handle_transitions (decrement_timers s)"
    and "s' \<equiv> update_traffic_lights s"
  assumes "\<forall>k. 0 \<le> remaining_time (lane_of s k)"
    and "0 \<le> cycle_duration (system_settings s)"
    and "0 \<le> yellow_duration (system_settings s)"
  shows "(\<forall>k. 0 \<le> remaining_time (lane_of s' k))
    \<and> (\<forall>k g. light (lane_of s k) = Red \<and> remaining_time (lane_of s k) = 0
            \<and> light (lane_of s g) = Green \<and> 1 \<le> yellow_duration (system_settings s)
          \<longrightarrow> 0 < remaining_time (lane_of s' k))
    \<and> (\<forall>k n. light (lane_of s k) \<noteq> Red \<and> remaining_time (lane_of s k) \<le> 1
            \<and> next_state (lane_of s k) = Some n
          \<longrightarrow> light (lane_of s2 k) = n \<and> next_state (lane_of s2 k) = None)"
proof -
  have ok: "timers_ok s"
    using assms(3-5) by (simp add: timers_ok_def)
  then have "timers_ok s'"
    unfolding s'_def by (rule timers_ok_update_traffic_lights)
  then have a: "\<forall>k. 0 \<le> remaining_time (lane_of s' k)"
    by (simp add: timers_ok_def)
  have b: "\<forall>k g. light (lane_of s k) = Red \<and> remaining_time (lane_of s k) = 0
            \<and> light (lane_of s g) = Green \<and> 1 \<le> yellow_duration (system_settings s)
          \<longrightarrow> 0 < remaining_time (lane_of s' k)"
    unfolding s'_def using red_wait_recomputed [OF ok] by auto
  have c: "\<forall>k n. light (lane_of s k) \<noteq> Red \<and> remaining_time (lane_of s k) \<le> 1
            \<and> next_state (lane_of s k) = Some n
          \<longrightarrow> light (lane_of s2 k) = n \<and> next_state (lane_of s2 k) = None"
    unfolding s2_def using pending_transition_applied by blast
  from a b c show ?thesis by blast
qed

theorem timers_stay_non_negative_witness:
  "remaining_time (lane_of red_zero_example Lane3) = 0
   \<and> light (lane_of red_zero_example Lane3) = Red
   \<and> light (lane_of red_zero_example Lane1) = Green
   \<and> 0 < remaining_time (lane_of (update_traffic_lights red_zero_example) Lane3)
   \<and> 0 \<le> remaining_time (lane_of (update_traffic_lights red_zero_example) Lane1)"
proof -
  have st: "red_zero_example =
     \<lparr>lane1 = \<lparr>emergency = False, remaining_time = 4, light = Green, vehicle_count = 0,
                weight = 0, next_state = None\<rparr>,
      lane2 = \<lparr>emergency = False, remaining_time = 15, light = Red, vehicle_count = 0,
                weight = 0, next_state = None\<rparr>,
      lane3 = \<lparr>emergency = False, remaining_time = 0, light = Red, vehicle_count = 0,
                weight = 0, next_state = None\<rparr>,
      lane4 = \<lparr>emergency = False, remaining_time = 37, light = Red, vehicle_count = 0,
                weight = 0, next_state = None\<rparr>,
      system_settings = \<lparr>mode = ''auto'', cycle_duration = 15, yellow_duration = 3,
                          weight_threshold = 6\<rparr>\<rparr>"
    by (simp add: red_zero_example_def initial_state_def tick_defs eval_nat_numeral)
  have h: "\<forall>k. 0 \<le> remaining_time (lane_of red_zero_example k)"
    "0 \<le> cycle_duration (system_settings red_zero_example)"
    "0 \<le> yellow_duration (system_settings red_zero_example)"
    by (simp_all add: st lane_id_all lane_of.simps)
  have f: "remaining_time (lane_of red_zero_example Lane3) = 0"
    "light (lane_of red_zero_example Lane3) = Red"
    "light (lane_of red_zero_example Lane1) = Green"
    "1 \<le> yellow_duration (system_settings red_zero_example)"
    by (simp_all add: st lane_of.simps)
  note stay = timers_stay_non_negative [OF h]
  from stay have "0 \<le> remaining_time (lane_of (update_traffic_lights red_zero_example) Lane1)"
    by blast
  moreover from stay f
  have "0 < remaining_time (lane_of (update_traffic_lights red_zero_example) Lane3)"
    by blast
  ultimately show ?thesis using f by blast
qed

theorem timers_resolved_counterexample:
  "reachable held_green_example
   \<and> light (lane_of (update_traffic_lights held_green_example) Lane4) = Green
   \<and> remaining_time (lane_of (update_traffic_lights held_green_example) Lane4) = 0
   \<and> light (lane_of ((update_traffic_lights ^^ 2) held_green_example) Lane4) = Green
   \<and> remaining_time (lane_of ((update_traffic_lights ^^ 2) held_green_example) Lane4) = 0
   \<and> reachable negative_example
   \<and> remaining_time (lane_of (update_traffic_lights negative_example) Lane2) < 0"
proof -
  have r1: "reachable held_green_example"
    unfolding held_green_example_def by (intro reach_detect reach_init)
  have r2: "reachable negative_example"
    unfolding negative_example_def by (intro reach_settings reach_init)
  have neg: "negative_example =
     \<lparr>lane1 = \<lparr>emergency = False, remaining_time = - 5, light = Red, vehicle_count = 0,
                weight = 0, next_state = None\<rparr>,
      lane2 = \<lparr>emergency = False, remaining_time = - 10, light = Red, vehicle_count = 0,
                weight = 0, next_state = None\<rparr>,
      lane3 = \<lparr>emergency = False, remaining_time = - 15, light = Red, vehicle_count = 0,
                weight = 0, next_state = None\<rparr>,
      lane4 = \<lparr>emergency = False, remaining_time = - 5, light = Green, vehicle_count = 0,
                weight = 0, next_state = None\<rparr>,
      system_settings = \<lparr>mode = ''auto'', cycle_duration = - 5, yellow_duration = 3,
                          weight_threshold = 6\<rparr>\<rparr>"
    by (simp add: negative_example_def negative_duration_request_def initial_state_def
        settings_defs)
  have n: "remaining_time (lane_of (update_traffic_lights negative_example) Lane2) < 0"
    by (simp add: neg tick_defs)
  have held: "held_green_example =
     \<lparr>lane1 = \<lparr>emergency = False, remaining_time = 45, light = Red, vehicle_count = 0,
                weight = 0, next_state = None\<rparr>,
      lane2 = \<lparr>emergency = False, remaining_time = 30, light = Red, vehicle_count = 0,
                weight = 0, next_state = None\<rparr>,
      lane3 = \<lparr>emergency = False, remaining_time = 15, light = Red, vehicle_count = 0,
                weight = 0, next_state = None\<rparr>,
      lane4 = \<lparr>emergency = True, remaining_time = 0, light = Green, vehicle_count = 1,
                weight = 2, next_state = None\<rparr>,
      system_settings = \<lparr>mode = ''auto'', cycle_duration = 15, yellow_duration = 3,
                          weight_threshold = 6\<rparr>\<rparr>"
    by (simp add: held_green_example_def detect_objects_def initial_state_def frame_weight_def
        frame_count_def lane_of.simps set_lane.simps)
  have h: "light (lane_of (update_traffic_lights held_green_example) Lane4) = Green"
    "remaining_time (lane_of (update_traffic_lights held_green_example) Lane4) = 0"
    "light (lane_of ((update_traffic_lights ^^ 2) held_green_example) Lane4) = Green"
    "remaining_time (lane_of ((update_traffic_lights ^^ 2) held_green_example) Lane4) = 0"
    by (simp_all add: held tick_defs eval_nat_numeral)
  from r1 r2 n h show ?thesis by blast
qed

subsection \<open>What a tick leaves alone\<close>

lemma normal_operation_observed [simp]:
  "emergency (lane_of (normal_operation s) k) = emergency (lane_of s k)"
  "weight (lane_of (normal_operation s) k) = weight (lane_of s k)"
  "vehicle_count (lane_of (normal_operation s) k) = vehicle_count (lane_of s k)"
  by (simp_all add: normal_operation_cases update_lane_lane split: option.splits)

lemma give_priority_observed [simp]:
  "emergency (lane_of (give_priority t s) k) = emergency (lane_of s k)"
  "weight (lane_of (give_priority t s) k) = weight (lane_of s k)"
  "vehicle_count (lane_of (give_priority t s) k) = vehicle_count (lane_of s k)"
  by (simp_all add: give_priority_lane_of)

lemma update_traffic_lights_observed [simp]:
  "emergency (lane_of (update_traffic_lights s) k) = emergency (lane_of s k)"
  "weight (lane_of (update_traffic_lights s) k) = weight (lane_of s k)"
  "vehicle_count (lane_of (update_traffic_lights s) k) = vehicle_count (lane_of s k)"
  "system_settings (update_traffic_lights s) = system_settings s"
  by (simp_all add: update_traffic_lights_def Let_def split: option.splits)

lemma funpow_observed [simp]:
  "emergency (lane_of ((update_traffic_lights ^^ n) s) k) = emergency (lane_of s k)"
  "weight (lane_of ((update_traffic_lights ^^ n) s) k) = weight (lane_of s k)"
  "system_settings ((update_traffic_lights ^^ n) s) = system_settings s"
  by (induction n) simp_all

lemma quiet_update_traffic_lights [simp]: "quiet (update_traffic_lights s) = quiet s"
  by (simp add: quiet_def)

lemma quiet_tick:
  "quiet s \<Longrightarrow>
     update_traffic_lights s = normal_operation (handle_transitions (decrement_timers s))"
  by (intro update_traffic_lights_normal) (simp_all add: quiet_def emergency_lane_None max_lane_None)

subsection \<open>Transitions that fire\<close>

lemma transition_lane_to_green:
  assumes "remaining_time (lane_of s k) \<le> 0" and "next_state (lane_of s k) = Some Green"
  shows "lane_of (transition_lane k s) k =
     (lane_of s k)\<lparr>light := Green, next_state := None,
                     remaining_time := cycle_duration (system_settings s)\<rparr>"
  using assms by (simp add: transition_lane_def Let_def)

lemma handle_transitions_to_green:
  assumes "remaining_time (lane_of s k) \<le> 0" and "next_state (lane_of s k) = Some Green"
  shows "lane_of (handle_transitions s) k =
     (lane_of s k)\<lparr>light := Green, next_state := None,
                     remaining_time := cycle_duration (system_settings s)\<rparr>"
  using assms
  by (cases k) (simp_all add: handle_transitions_def lanes_order_def transition_lane_to_green)

lemma handle_transitions_all_idle:
  assumes "\<forall>k. remaining_time (lane_of s k) > 0 \<or> next_state (lane_of s k) = None"
  shows "lane_of (handle_transitions s) k = lane_of s k"
  using assms by (simp add: handle_transitions_idle)

subsection \<open>One tick of the normal rotation\<close>

lemma green_phase_current:
  "green_phase k r s \<Longrightarrow> current_green s = Some k"
  by (intro current_green_unique) (auto simp add: green_phase_def)

lemma green_phase_step:
  assumes "green_phase k r s" and "quiet s"
  shows "if 1 < r then green_phase k (r - 1) (update_traffic_lights s)
         else handoff_phase k (yellow_duration (system_settings s)) (update_traffic_lights s)"
proof -
  let ?s1 = "decrement_timers s"
  let ?s2 = "handle_transitions ?s1"
  from assms(1) have none: "\<And>j. next_state (lane_of s j) = None"
    unfolding green_phase_def by metis
  have s2: "\<And>j. lane_of ?s2 j = lane_of ?s1 j"
    by (simp add: handle_transitions_idle none)
  have t: "remaining_time (lane_of ?s1 k) = (if 0 < r then r - 1 else r)"
    using assms(1) by (simp add: green_phase_def decrement_timers_pos decrement_timers_keep)
  have g1: "green_phase k (if 0 < r then r - 1 else r) ?s2"
    using assms(1) t unfolding green_phase_def by (simp add: s2)
  then have cg: "current_green ?s2 = Some k" by (rule green_phase_current)
  have ny: "\<not> (\<exists>j. light (lane_of ?s2 j) = Yellow)"
    using g1 unfolding green_phase_def by (metis light.distinct)
  show ?thesis
  proof (cases "1 < r")
    case True
    then have "normal_operation ?s2 = ?s2"
      using ny cg g1 by (simp add: normal_operation_cases green_phase_def)
    then show ?thesis using True g1 assms(2) by (simp add: quiet_tick)
  next
    case False
    then have le: "\<not> 0 < remaining_time (lane_of ?s2 k)"
      using g1 by (auto simp add: green_phase_def split: if_splits)
    have "normal_operation ?s2 =
        update_lane (next_lane k) Yellow (Some Green) (yellow_duration (system_settings s))
          (update_lane k Yellow (Some Red) (yellow_duration (system_settings s)) ?s2)"
      using ny cg le by (simp add: normal_operation_cases)
    moreover have "handoff_phase k (yellow_duration (system_settings s))
        (update_lane (next_lane k) Yellow (Some Green) (yellow_duration (system_settings s))
          (update_lane k Yellow (Some Red) (yellow_duration (system_settings s)) ?s2))"
      using g1 by (simp add: handoff_phase_def green_phase_def update_lane_lane)
    ultimately show ?thesis using False assms(2) by (simp add: quiet_tick)
  qed
qed

lemma handoff_phase_step:
  assumes "handoff_phase k r s" and "quiet s" and "1 \<le> r"
    and "1 \<le> cycle_duration (system_settings s)"
  shows "if 1 < r then handoff_phase k (r - 1) (update_traffic_lights s)
         else green_phase (next_lane k) (cycle_duration (system_settings s))
                (update_traffic_lights s)"
proof -
  let ?s1 = "decrement_timers s"
  let ?s2 = "handle_transitions ?s1"
  let ?n = "next_lane k"
  from assms(1) have h:
    "light (lane_of s k) = Yellow" "next_state (lane_of s k) = Some Red"
    "remaining_time (lane_of s k) = r"
    "light (lane_of s ?n) = Yellow" "next_state (lane_of s ?n) = Some Green"
    "remaining_time (lane_of s ?n) = r"
    "\<And>j. j \<noteq> k \<Longrightarrow> j \<noteq> ?n \<Longrightarrow> light (lane_of s j) = Red \<and> next_state (lane_of s j) = None"
    unfolding handoff_phase_def by blast+
  have t: "remaining_time (lane_of ?s1 k) = r - 1" "remaining_time (lane_of ?s1 ?n) = r - 1"
    using h(3,6) assms(3) by (simp_all add: decrement_timers_pos)
  have rest: "lane_of ?s2 j = lane_of ?s1 j" if "j \<noteq> k" "j \<noteq> ?n" for j
    using h(7) [OF that] by (simp add: handle_transitions_idle)
  show ?thesis
  proof (cases "1 < r")
    case True
    then have idle: "lane_of ?s2 j = lane_of ?s1 j" for j
      using t rest [of j] by (cases "j = k \<or> j = ?n") (auto simp add: handle_transitions_idle)
    have hp: "handoff_phase k (r - 1) ?s2"
      unfolding handoff_phase_def using h t by (simp add: idle)
    then have "\<exists>j. light (lane_of ?s2 j) = Yellow"
      unfolding handoff_phase_def by blast
    then have "normal_operation ?s2 = ?s2" by (simp add: normal_operation_cases)
    then show ?thesis using True hp assms(2) by (simp add: quiet_tick)
  next
    case False
    with assms(3) have r: "r = 1" by simp
    have kl: "light (lane_of ?s2 k) = Red" "next_state (lane_of ?s2 k) = None"
      using h t r by (simp_all add: handle_transitions_light handle_transitions_next)
    have nl: "lane_of ?s2 ?n = (lane_of ?s1 ?n)\<lparr>light := Green, next_state := None,
                     remaining_time := cycle_duration (system_settings s)\<rparr>"
      using h t r handle_transitions_to_green [of ?s1 ?n] by simp
    have others: "light (lane_of ?s2 j) = Red \<and> next_state (lane_of ?s2 j) = None"
      if "j \<noteq> ?n" for j
      using that kl h(7) [of j] rest [of j] by (cases "j = k") auto
    have gp: "green_phase ?n (cycle_duration (system_settings s)) ?s2"
      unfolding green_phase_def using others by (simp add: nl)
    then have cg: "current_green ?s2 = Some ?n" by (rule green_phase_current)
    have ny: "\<not> (\<exists>j. light (lane_of ?s2 j) = Yellow)"
      using gp unfolding green_phase_def by (metis light.distinct)
    have "normal_operation ?s2 = ?s2"
      using ny cg assms(4) by (simp add: normal_operation_cases nl)
    then show ?thesis using False gp assms(2) by (simp add: quiet_tick)
  qed
qed

subsection \<open>Runs of the normal rotation\<close>

lemma green_phase_run:
  assumes "green_phase k r s" and "quiet s" and "int n < r"
  shows "green_phase k (r - int n) ((update_traffic_lights ^^ n) s)"
  using assms(3)
proof (induction n)
  case 0
  then show ?case using assms(1) by simp
next
  case (Suc n)
  let ?t = "(update_traffic_lights ^^ n) s"
  from Suc have g: "green_phase k (r - int n) ?t" by simp
  have q: "quiet ?t" using assms(2) by (simp add: quiet_def)
  from Suc.prems have "1 < r - int n" by simp
  with green_phase_step [OF g q]
  have "green_phase k (r - int n - 1) (update_traffic_lights ?t)" by simp
  then show ?case by (simp add: algebra_simps)
qed

lemma handoff_phase_run:
  assumes "handoff_phase k r s" and "quiet s" and "int n < r"
    and "1 \<le> cycle_duration (system_settings s)"
  shows "handoff_phase k (r - int n) ((update_traffic_lights ^^ n) s)"
  using assms(3)
proof (induction n)
  case 0
  then show ?case using assms(1) by simp
next
  case (Suc n)
  let ?t = "(update_traffic_lights ^^ n) s"
  from Suc have h: "handoff_phase k (r - int n) ?t" by simp
  have q: "quiet ?t" using assms(2) by (simp add: quiet_def)
  have c: "1 \<le> cycle_duration (system_settings ?t)" using assms(4) by simp
  from Suc.prems have "1 < r - int n" by simp
  with handoff_phase_step [OF h q _ c]
  have "handoff_phase k (r - int n - 1) (update_traffic_lights ?t)" by simp
  then show ?case by (simp add: algebra_simps)
qed

lemma rotation_step:
  fixes C Y :: nat
  assumes "green_phase k (int C) s" and "quiet s"
    and "cycle_duration (system_settings s) = int C"
    and "yellow_duration (system_settings s) = int Y"
    and "1 \<le> C" and "1 \<le> Y"
  shows "green_phase (next_lane k) (int C) ((update_traffic_lights ^^ (C + Y)) s)"
proof -
  let ?tick = update_traffic_lights
  let ?a = "(?tick ^^ (C - 1)) s"
  let ?b = "?tick ?a"
  let ?c = "(?tick ^^ (Y - 1)) ?b"
  let ?d = "?tick ?c"
  have "green_phase k (int C - int (C - 1)) ?a"
    using assms(1,2,5) by (intro green_phase_run) simp_all
  then have a: "green_phase k 1 ?a" using assms(5) by (simp add: of_nat_diff)
  have qa: "quiet ?a" using assms(2) by (simp add: quiet_def)
  have b: "handoff_phase k (int Y) ?b"
    using green_phase_step [OF a qa] assms(4) by simp
  have qb: "quiet ?b" using qa by simp
  have "handoff_phase k (int Y - int (Y - 1)) ?c"
    using b qb assms(3,5,6) by (intro handoff_phase_run) simp_all
  then have c: "handoff_phase k 1 ?c" using assms(6) by (simp add: of_nat_diff)
  have qc: "quiet ?c" using qb by (simp add: quiet_def)
  have d: "green_phase (next_lane k) (int C) ?d"
    using handoff_phase_step [OF c qc] assms(3,5) by simp
  have "?d = (?tick ^^ (Suc (Y - 1) + Suc (C - 1))) s"
    unfolding funpow_add by simp
  also have "Suc (Y - 1) + Suc (C - 1) = C + Y"
    using assms(5,6) by simp
  finally show ?thesis using d by simp
qed

lemma next_lane_four [simp]: "next_lane (next_lane (next_lane (next_lane k))) = k"
  by (cases k) simp_all

lemma full_rotation:
  fixes C Y :: nat
  assumes "green_phase k (int C) s" and "quiet s"
    and "cycle_duration (system_settings s) = int C"
    and "yellow_duration (system_settings s) = int Y"
    and "1 \<le> C" and "1 \<le> Y"
  shows "green_phase k (int C) ((update_traffic_lights ^^ (4 * (C + Y))) s)"
proof -
  let ?run = "update_traffic_lights ^^ (C + Y)"
  have step: "green_phase (next_lane j) (int C) (?run t)"
    if "green_phase j (int C) t" and "quiet t"
      and "system_settings t = system_settings s" for j t
    using that assms(3-6) by (intro rotation_step) simp_all
  have keep: "quiet (?run t) \<and> system_settings (?run t) = system_settings s"
    if "quiet t" and "system_settings t = system_settings s" for t
    using that by (simp add: quiet_def)
  have r1: "green_phase (next_lane k) (int C) (?run s)"
    using assms(1,2) by (intro step) simp_all
  have k1: "quiet (?run s) \<and> system_settings (?run s) = system_settings s"
    using assms(2) by (intro keep) simp_all
  have r2: "green_phase (next_lane (next_lane k)) (int C) (?run (?run s))"
    by (rule step) (use r1 k1 in simp_all)
  have k2: "quiet (?run (?run s)) \<and> system_settings (?run (?run s)) = system_settings s"
    by (rule keep) (use k1 in simp_all)
  have r3: "green_phase (next_lane (next_lane (next_lane k))) (int C) (?run (?run (?run s)))"
    by (rule step) (use r2 k2 in simp_all)
  have k3: "quiet (?run (?run (?run s)))
      \<and> system_settings (?run (?run (?run s))) = system_settings s"
    by (rule keep) (use k2 in simp_all)
  have r4: "green_phase (next_lane (next_lane (next_lane (next_lane k)))) (int C)
      (?run (?run (?run (?run s))))"
    by (rule step) (use r3 k3 in simp_all)
  have "4 * (C + Y) = (C + Y) + ((C + Y) + ((C + Y) + (C + Y)))" by simp
  then have "(update_traffic_lights ^^ (4 * (C + Y))) s = ?run (?run (?run (?run s)))"
    by (simp only: funpow_add o_apply)
  with r4 show ?thesis by simp
qed

text \<open>
  Claim C2, as the code has it. With no emergency flag set, no weight above the threshold,
  \<open>cycle_duration = C \<ge> 1\<close> and \<open>yellow_duration = Y \<ge> 1\<close>, starting from a state in
  which lane \<open>k\<close> is Green with \<open>remaining_time = C\<close>, every other lane is Red and no
  lane has a pending state, after exactly \<open>4 (C + Y)\<close> ticks lane \<open>k\<close> is Green again with
  \<open>remaining_time = C\<close>.
\<close>

theorem rotation_closure:
  fixes C Y :: nat
  assumes "cycle_duration (system_settings s) = int C"
    and "yellow_duration (system_settings s) = int Y"
    and "1 \<le> C" and "1 \<le> Y"
    and "\<forall>j. \<not> emergency (lane_of s j)"
    and "\<forall>j. weight (lane_of s j) \<le> weight_threshold (system_settings s)"
    and "light (lane_of s k) = Green"
    and "remaining_time (lane_of s k) = int C"
    and "\<forall>j. j \<noteq> k \<longrightarrow> light (lane_of s j) = Red"
    and "\<forall>j. next_state (lane_of s j) = None"
  shows "light (lane_of ((update_traffic_lights ^^ (4 * (C + Y))) s) k) = Green
    \<and> remaining_time (lane_of ((update_traffic_lights ^^ (4 * (C + Y))) s) k) = int C"
proof -
  have g: "green_phase k (int C) s"
    using assms(7-10) by (simp add: green_phase_def)
  have q: "quiet s"
    using assms(5,6) by (simp add: quiet_def)
  have "green_phase k (int C) ((update_traffic_lights ^^ (4 * (C + Y))) s)"
    using g q assms(1-4) by (rule full_rotation)
  then show ?thesis by (simp add: green_phase_def)
qed

theorem rotation_closure_witness:
  "light (lane_of lane2_green_state Lane2) = Green
   \<and> remaining_time (lane_of lane2_green_state Lane2) = 15
   \<and> light (lane_of ((update_traffic_lights ^^ 72) lane2_green_state) Lane2) = Green
   \<and> remaining_time (lane_of ((update_traffic_lights ^^ 72) lane2_green_state) Lane2) = 15"
proof -
  have st: "lane2_green_state =
     \<lparr>lane1 = \<lparr>emergency = False, remaining_time = 0, light = Red, vehicle_count = 0,
                weight = 0, next_state = None\<rparr>,
      lane2 = \<lparr>emergency = False, remaining_time = 15, light = Green, vehicle_count = 0,
                weight = 0, next_state = None\<rparr>,
      lane3 = \<lparr>emergency = False, remaining_time = 15, light = Red, vehicle_count = 0,
                weight = 0, next_state = None\<rparr>,
      lane4 = \<lparr>emergency = False, remaining_time = 30, light = Red, vehicle_count = 0,
                weight = 0, next_state = None\<rparr>,
      system_settings = \<lparr>mode = ''auto'', cycle_duration = 15, yellow_duration = 3,
                          weight_threshold = 6\<rparr>\<rparr>"
    by (simp add: lane2_green_state_def initial_state_def tick_defs eval_nat_numeral)
  have h: "cycle_duration (system_settings lane2_green_state) = int 15"
    "yellow_duration (system_settings lane2_green_state) = int 3"
    "(1::nat) \<le> 15" "(1::nat) \<le> 3"
    "\<forall>j. \<not> emergency (lane_of lane2_green_state j)"
    "\<forall>j. weight (lane_of lane2_green_state j)
        \<le> weight_threshold (system_settings lane2_green_state)"
    "light (lane_of lane2_green_state Lane2) = Green"
    "remaining_time (lane_of lane2_green_state Lane2) = int 15"
    "\<forall>j. j \<noteq> Lane2 \<longrightarrow> light (lane_of lane2_green_state j) = Red"
    "\<forall>j. next_state (lane_of lane2_green_state j) = None"
    by (simp_all add: st lane_id_all lane_of.simps)
  show ?thesis
    using h(7,8) rotation_closure [OF h] by simp
qed

theorem rotation_closure_counterexample:
  "light (lane_of initial_state Lane4) = Green
   \<and> cycle_duration (system_settings initial_state) = 15
   \<and> yellow_duration (system_settings initial_state) = 3
   \<and> remaining_time (lane_of ((update_traffic_lights ^^ (4 * (15 + 3))) initial_state) Lane4) = 1
   \<and> light (lane_of zero_yellow_example Lane4) = Green
   \<and> remaining_time (lane_of zero_yellow_example Lane4) = 1
   \<and> cycle_duration (system_settings zero_yellow_example) = 1
   \<and> yellow_duration (system_settings zero_yellow_example) = 0
   \<and> light (lane_of ((update_traffic_lights ^^ (4 * (1 + 0))) zero_yellow_example) Lane4) = Red"
proof -
  have a: "light (lane_of initial_state Lane4) = Green"
    "cycle_duration (system_settings initial_state) = 15"
    "yellow_duration (system_settings initial_state) = 3"
    by (simp_all add: initial_state_def lane_of.simps)
  have b: "remaining_time (lane_of ((update_traffic_lights ^^ (4 * (15 + 3))) initial_state) Lane4)
      = 1"
    by (simp add: initial_state_def tick_defs eval_nat_numeral)
  have st: "zero_yellow_example =
     \<lparr>lane1 = \<lparr>emergency = False, remaining_time = 1, light = Red, vehicle_count = 0,
                weight = 0, next_state = None\<rparr>,
      lane2 = \<lparr>emergency = False, remaining_time = 2, light = Red, vehicle_count = 0,
                weight = 0, next_state = None\<rparr>,
      lane3 = \<lparr>emergency = False, remaining_time = 3, light = Red, vehicle_count = 0,
                weight = 0, next_state = None\<rparr>,
      lane4 = \<lparr>emergency = False, remaining_time = 1, light = Green, vehicle_count = 0,
                weight = 0, next_state = None\<rparr>,
      system_settings = \<lparr>mode = ''auto'', cycle_duration = 1, yellow_duration = 0,
                          weight_threshold = 6\<rparr>\<rparr>"
    by (simp add: zero_yellow_example_def zero_yellow_request_def initial_state_def
        settings_defs)
  have c: "light (lane_of zero_yellow_example Lane4) = Green"
    "remaining_time (lane_of zero_yellow_example Lane4) = 1"
    "cycle_duration (system_settings zero_yellow_example) = 1"
    "yellow_duration (system_settings zero_yellow_example) = 0"
    by (simp_all add: st lane_of.simps)
  have d: "light (lane_of ((update_traffic_lights ^^ (4 * (1 + 0))) zero_yellow_example) Lane4)
      = Red"
    by (simp add: st tick_defs eval_nat_numeral)
  from a b c d show ?thesis by blast
qed

subsection \<open>Emergency preemption, tick by tick\<close>

lemma only_emergency_lane: "only_emergency m s \<Longrightarrow> emergency_lane s = Some m"
  by (auto simp add: only_emergency_def emergency_lane_Some)

lemma only_emergency_tick [simp]:
  "only_emergency m (update_traffic_lights s) = only_emergency m s"
  by (simp add: only_emergency_def)

lemma only_emergency_funpow [simp]:
  "only_emergency m ((update_traffic_lights ^^ n) s) = only_emergency m s"
  by (simp add: only_emergency_def)

lemma emergency_tick:
  "only_emergency m s \<Longrightarrow>
     update_traffic_lights s = give_priority m (handle_transitions (decrement_timers s))"
  by (intro update_traffic_lights_emergency only_emergency_lane)

lemma yielding_resolved:
  assumes "yielding (lane_of s j)"
  shows "yielding (lane_of (handle_transitions (decrement_timers s)) j)"
  using assms
  by (auto simp add: yielding_def handle_transitions_light handle_transitions_next)

lemma yielding_forced:
  assumes "yielding l"
  shows "yielding (forced False Y l)"
  using assms by (auto simp add: yielding_def forced_light forced_next)

lemma preemption_starts:
  assumes "lights_ok s" and "only_emergency m s"
    and "light (lane_of s m) = Red" and "light (lane_of s g) = Green"
  shows "preempting m (yellow_duration (system_settings s)) (update_traffic_lights s)"
proof -
  let ?s2 = "handle_transitions (decrement_timers s)"
  let ?Y = "yellow_duration (system_settings s)"
  from assms(1) have d: "\<And>i. light (lane_of s i) \<noteq> Yellow \<Longrightarrow> next_state (lane_of s i) = None"
    and c: "\<And>i. next_state (lane_of s i) \<noteq> Some Green"
    using assms(4) unfolding lights_ok_def by blast+
  have "next_state (lane_of s m) = None"
    using d [of m] assms(3) by simp
  then have m2: "light (lane_of ?s2 m) = Red"
    using assms(3) by (simp add: handle_transitions_light)
  have target: "forced True ?Y (lane_of ?s2 m) =
      (lane_of ?s2 m)\<lparr>light := Yellow, next_state := Some Green, remaining_time := ?Y\<rparr>"
    using m2 by (simp add: forced_def)
  have others: "yielding (forced False ?Y (lane_of ?s2 j))" for j
  proof -
    have n2: "next_state (lane_of ?s2 j) \<noteq> Some Green"
      using c [of j] by (simp add: handle_transitions_next)
    have "light (lane_of ?s2 j) \<noteq> Yellow \<Longrightarrow> next_state (lane_of ?s2 j) = None"
      using d [of j]
      by (auto simp add: handle_transitions_light handle_transitions_next split: if_splits)
    then show ?thesis
      using n2 light_cases [of "light (lane_of ?s2 j)"]
      by (auto simp add: yielding_def forced_light forced_next)
  qed
  show ?thesis
    unfolding emergency_tick [OF assms(2)] preempting_def
    using others by (simp add: give_priority_lane_of target)
qed

lemma preempting_step:
  assumes "preempting m r s" and "only_emergency m s"
  shows "if 1 < r then preempting m (r - 1) (update_traffic_lights s)
         else preempted m (update_traffic_lights s)"
proof -
  let ?s1 = "decrement_timers s"
  let ?s2 = "handle_transitions ?s1"
  let ?Y = "yellow_duration (system_settings s)"
  from assms(1) have p: "light (lane_of s m) = Yellow" "next_state (lane_of s m) = Some Green"
    "remaining_time (lane_of s m) = r" "\<And>j. j \<noteq> m \<Longrightarrow> yielding (lane_of s j)"
    unfolding preempting_def by blast+
  have others: "yielding (lane_of (give_priority m ?s2) j)" if "j \<noteq> m" for j
    using that p(4) [OF that]
    by (simp add: give_priority_lane_of yielding_resolved yielding_forced)
  have t: "remaining_time (lane_of ?s1 m) = (if 0 < r then r - 1 else r)"
    using p(1,3) by (simp add: decrement_timers_pos decrement_timers_keep)
  show ?thesis
  proof (cases "1 < r")
    case True
    then have "lane_of ?s2 m = lane_of ?s1 m"
      using t by (simp add: handle_transitions_idle)
    then have "forced True ?Y (lane_of ?s2 m) = lane_of ?s1 m"
      using p(1,2) by (simp add: forced_def)
    then have "preempting m (r - 1) (give_priority m ?s2)"
      unfolding preempting_def using others p(1,2) t True
      by (simp add: give_priority_lane_of)
    then show ?thesis using True by (simp add: emergency_tick [OF assms(2)])
  next
    case False
    then have "remaining_time (lane_of ?s1 m) \<le> 0" using t by simp
    then have g: "lane_of ?s2 m = (lane_of ?s1 m)\<lparr>light := Green, next_state := None,
        remaining_time := cycle_duration (system_settings s)\<rparr>"
      using p(2) handle_transitions_to_green [of ?s1 m] by simp
    then have "forced True ?Y (lane_of ?s2 m) = lane_of ?s2 m"
      by (simp add: forced_def)
    then have "preempted m (give_priority m ?s2)"
      unfolding preempted_def using others g by (simp add: give_priority_lane_of)
    then show ?thesis using False by (simp add: emergency_tick [OF assms(2)])
  qed
qed

lemma preempting_run:
  assumes "preempting m r s" and "only_emergency m s" and "int n < max r 1"
  shows "preempting m (r - int n) ((update_traffic_lights ^^ n) s)"
  using assms(3)
proof (induction n)
  case 0
  then show ?case using assms(1) by simp
next
  case (Suc n)
  let ?t = "(update_traffic_lights ^^ n) s"
  from Suc have p: "preempting m (r - int n) ?t" by simp
  have e: "only_emergency m ?t" using assms(2) by simp
  from Suc.prems have "1 < r - int n" by simp
  with preempting_step [OF p e]
  have "preempting m (r - int n - 1) (update_traffic_lights ?t)" by simp
  then show ?case by (simp add: algebra_simps)
qed

text \<open>
  Claim C3, as the code has it. From a reachable state in which lane \<open>m\<close> is Red, some lane
  is Green and \<open>m\<close> is the only lane with its emergency flag set, with
  \<open>yellow_duration = Y\<close>: lane \<open>m\<close> is Yellow after each of the first \<open>max Y 1\<close> ticks and
  Green, with the cycle duration as its time, after exactly \<open>max Y 1 + 1\<close> ticks (that is
  \<open>Y + 1\<close> for \<open>Y \<ge> 1\<close>); at that point every other lane is Red or is Yellow with pending
  Red.
\<close>

theorem emergency_latency:
  fixes s :: state and m g :: lane_id
  defines "Y \<equiv> nat (max (yellow_duration (system_settings s)) 1)"
  assumes "reachable s"
    and "light (lane_of s m) = Red"
    and "light (lane_of s g) = Green"
    and "emergency (lane_of s m)"
    and "\<forall>j. j \<noteq> m \<longrightarrow> \<not> emergency (lane_of s j)"
  shows "(\<forall>n. 1 \<le> n \<and> n \<le> Y \<longrightarrow> light (lane_of ((update_traffic_lights ^^ n) s) m) = Yellow)
    \<and> light (lane_of ((update_traffic_lights ^^ (Y + 1)) s) m) = Green
    \<and> remaining_time (lane_of ((update_traffic_lights ^^ (Y + 1)) s) m)
        = cycle_duration (system_settings s)
    \<and> (\<forall>j. j \<noteq> m \<longrightarrow>
          light (lane_of ((update_traffic_lights ^^ (Y + 1)) s) j) = Red
          \<or> (light (lane_of ((update_traffic_lights ^^ (Y + 1)) s) j) = Yellow
             \<and> next_state (lane_of ((update_traffic_lights ^^ (Y + 1)) s) j) = Some Red))"
proof -
  let ?tick = update_traffic_lights
  let ?r = "yellow_duration (system_settings s)"
  let ?s1 = "?tick s"
  have e: "only_emergency m s"
    using assms(5,6) by (simp add: only_emergency_def)
  then have e1: "only_emergency m ?s1" by simp
  have ok: "lights_ok s" using assms(2) by (rule reachable_lights_ok)
  have start: "preempting m ?r ?s1"
    using ok e assms(3,4) by (rule preemption_starts)
  have run: "preempting m (?r - int n) ((?tick ^^ n) ?s1)" if "n < Y" for n
    using start e1 that by (intro preempting_run) (simp_all add: Y_def)
  have yellow: "light (lane_of ((?tick ^^ n) s) m) = Yellow" if "1 \<le> n" "n \<le> Y" for n
  proof -
    from that obtain k where k: "n = Suc k" "k < Y" by (cases n) auto
    then have "preempting m (?r - int k) ((?tick ^^ k) ?s1)" by (intro run)
    then show ?thesis
      unfolding k(1) funpow_Suc_right by (simp add: preempting_def)
  qed
  have Y: "1 \<le> Y" by (simp add: Y_def)
  let ?last = "(?tick ^^ (Y - 1)) ?s1"
  have "preempting m (?r - int (Y - 1)) ?last"
    using Y by (intro run) simp
  moreover have "\<not> 1 < ?r - int (Y - 1)"
    unfolding Y_def max_def by (auto split: if_splits)
  moreover have "only_emergency m ?last" using e1 by simp
  ultimately have "preempted m (?tick ?last)"
    using preempting_step [of m "?r - int (Y - 1)" ?last] by simp
  moreover have "?tick ?last = (?tick ^^ (Y + 1)) s"
  proof -
    have "?tick ?last = (?tick ^^ (Suc (Y - 1) + 1)) s"
      unfolding funpow_add by simp
    then show ?thesis using Y by simp
  qed
  ultimately have "preempted m ((?tick ^^ (Y + 1)) s)" by simp
  then show ?thesis
    using yellow unfolding preempted_def yielding_def by auto
qed

lemma emergency_example_state:
  "emergency_example =
     \<lparr>lane1 = \<lparr>emergency = True, remaining_time = 45, light = Red, vehicle_count = 1,
                weight = 2, next_state = None\<rparr>,
      lane2 = \<lparr>emergency = False, remaining_time = 30, light = Red, vehicle_count = 0,
                weight = 0, next_state = None\<rparr>,
      lane3 = \<lparr>emergency = False, remaining_time = 15, light = Red, vehicle_count = 0,
                weight = 0, next_state = None\<rparr>,
      lane4 = \<lparr>emergency = False, remaining_time = 0, light = Green, vehicle_count = 0,
                weight = 0, next_state = None\<rparr>,
      system_settings = \<lparr>mode = ''auto'', cycle_duration = 15, yellow_duration = 3,
                          weight_threshold = 6\<rparr>\<rparr>"
  by (simp add: emergency_example_def detect_objects_def initial_state_def frame_weight_def
      frame_count_def lane_of.simps set_lane.simps)

theorem emergency_latency_witness:
  "light (lane_of emergency_example Lane1) = Red
   \<and> light (lane_of emergency_example Lane4) = Green
   \<and> emergency (lane_of emergency_example Lane1)
   \<and> light (lane_of ((update_traffic_lights ^^ 3) emergency_example) Lane1) = Yellow
   \<and> light (lane_of ((update_traffic_lights ^^ 4) emergency_example) Lane1) = Green
   \<and> remaining_time (lane_of ((update_traffic_lights ^^ 4) emergency_example) Lane1) = 15"
proof -
  have r: "reachable emergency_example"
    unfolding emergency_example_def by (intro reach_detect reach_init)
  have l: "light (lane_of emergency_example Lane1) = Red"
    "light (lane_of emergency_example Lane4) = Green"
    "emergency (lane_of emergency_example Lane1)"
    "\<forall>j. j \<noteq> Lane1 \<longrightarrow> \<not> emergency (lane_of emergency_example j)"
    by (simp_all add: emergency_example_state lane_id_all lane_of.simps)
  have y: "nat (max (yellow_duration (system_settings emergency_example)) 1) = 3"
    "cycle_duration (system_settings emergency_example) = 15"
    by (simp_all add: emergency_example_state)
  note latency = emergency_latency [OF r l, unfolded y]
  from latency have "light (lane_of ((update_traffic_lights ^^ 3) emergency_example) Lane1) = Yellow"
    by simp
  moreover from latency
  have "light (lane_of ((update_traffic_lights ^^ (3 + 1)) emergency_example) Lane1) = Green"
    "remaining_time (lane_of ((update_traffic_lights ^^ (3 + 1)) emergency_example) Lane1) = 15"
    by blast+
  ultimately show ?thesis using l(1-3) by simp
qed

theorem emergency_latency_counterexample:
  "reachable emergency_example
   \<and> light (lane_of emergency_example Lane1) = Red
   \<and> light (lane_of emergency_example Lane4) = Green
   \<and> emergency (lane_of emergency_example Lane1)
   \<and> \<not> emergency (lane_of emergency_example Lane2)
   \<and> \<not> emergency (lane_of emergency_example Lane3)
   \<and> \<not> emergency (lane_of emergency_example Lane4)
   \<and> yellow_duration (system_settings emergency_example) = 3
   \<and> light (lane_of ((update_traffic_lights ^^ 1) emergency_example) Lane1) = Yellow
   \<and> light (lane_of ((update_traffic_lights ^^ 2) emergency_example) Lane1) = Yellow
   \<and> light (lane_of ((update_traffic_lights ^^ 3) emergency_example) Lane1) = Yellow"
proof -
  have r: "reachable emergency_example"
    unfolding emergency_example_def by (intro reach_detect reach_init)
  have a: "light (lane_of emergency_example Lane1) = Red"
    "light (lane_of emergency_example Lane4) = Green"
    "emergency (lane_of emergency_example Lane1)"
    "\<not> emergency (lane_of emergency_example Lane2)"
    "\<not> emergency (lane_of emergency_example Lane3)"
    "\<not> emergency (lane_of emergency_example Lane4)"
    "yellow_duration (system_settings emergency_example) = 3"
    by (simp_all add: emergency_example_state lane_of.simps)
  have b: "light (lane_of ((update_traffic_lights ^^ 1) emergency_example) Lane1) = Yellow"
    "light (lane_of ((update_traffic_lights ^^ 2) emergency_example) Lane1) = Yellow"
    "light (lane_of ((update_traffic_lights ^^ 3) emergency_example) Lane1) = Yellow"
    by (simp_all add: emergency_example_state tick_defs eval_nat_numeral)
  from r a b show ?thesis by blast
qed

end
